theory Spec2Isabelle
  imports Complex_Main "HOL-Library.Multiset"
begin

text \<open>
  A model of the summarisation pipeline of the extension. The modules are named as the
  program imports them; their text is found in these files:

  \<^item> \<open>types.ts\<close>: \<open>src/unnamed/part_006\<close>, from line 77;
  \<^item> \<open>services/geminiService.ts\<close>: \<open>src/unnamed/part_004\<close>, from line 584 (the part
    before it is an earlier version of the same service, whose \<open>applyCorrections\<close>
    has the same code and carries the comments);
  \<^item> \<open>services/summaryStorage.ts\<close>: \<open>src/services/offlinePromptService.ts\<close>, from
    line 231;
  \<^item> \<open>App.tsx\<close>: \<open>src/unnamed/part_007\<close>, from line 326.
\<close>

section \<open>JavaScript strings and dynamic values\<close>

text \<open>
  A JavaScript string is a sequence of UTF-16 code units. A code unit is modelled as a
  natural number (no arithmetic is ever done on one, so no wrap-around can occur) and a
  string as the list of its code units. \<open>js\<close> turns an ASCII literal into such a list.
\<close>

type_synonym jsstring = "nat list"

definition js :: "string \<Rightarrow> jsstring" where
  "js s = map of_char s"

text \<open>
  \<open>String.prototype.trim\<close> removes, at both ends, the code units of the ECMAScript
  productions WhiteSpace and LineTerminator: TAB, LF, VT, FF, CR, SPACE, NBSP, U+1680,
  U+2000 to U+200A, U+2028, U+2029, U+202F, U+205F, U+3000 and U+FEFF.
\<close>

definition isWhiteSpace :: "nat \<Rightarrow> bool" where
  "isWhiteSpace c =
     (c = 9 \<or> c = 10 \<or> c = 11 \<or> c = 12 \<or> c = 13 \<or> c = 32 \<or> c = 160 \<or> c = 5760 \<or>
      (8192 \<le> c \<and> c \<le> 8202) \<or> c = 8232 \<or> c = 8233 \<or> c = 8239 \<or> c = 8287 \<or>
      c = 12288 \<or> c = 65279)"

definition trimStart :: "jsstring \<Rightarrow> jsstring" where
  "trimStart s = dropWhile isWhiteSpace s"

definition trim :: "jsstring \<Rightarrow> jsstring" where
  "trim s = rev (trimStart (rev (trimStart s)))"

text \<open>
  The values that \<open>JSON.parse\<close> produces. The loose \<open>undefined\<close> of JavaScript is not
  one of them: a value that may be \<open>undefined\<close> is a \<open>jsval option\<close>, with \<open>None\<close> for
  \<open>undefined\<close>. An object is the list of its properties in insertion order.
\<close>

datatype jsval =
    JNull
  | JBool bool
  | JNum rat
  | JStr jsstring
  | JArr "jsval list"
  | JObj "(jsstring \<times> jsval) list"

text \<open>ToBoolean, as the conditions \<open>if (v)\<close> and the operator \<open>||\<close> apply it.\<close>

fun truthy :: "jsval \<Rightarrow> bool" where
  "truthy JNull = False"
| "truthy (JBool b) = b"
| "truthy (JNum n) = (n \<noteq> 0)"
| "truthy (JStr s) = (s \<noteq> [])"
| "truthy (JArr xs) = True"
| "truthy (JObj kvs) = True"

definition truthyU :: "jsval option \<Rightarrow> bool" where
  "truthyU v = (case v of None \<Rightarrow> False | Some x \<Rightarrow> truthy x)"

text \<open>\<open>a || b\<close>: the left operand when it is truthy, the right operand otherwise.\<close>

definition jsOr :: "jsval option \<Rightarrow> jsval option \<Rightarrow> jsval option" where
  "jsOr a b = (if truthyU a then a else b)"

text \<open>
  \<open>v.k\<close> on a value that is neither \<open>null\<close> nor \<open>undefined\<close>, for the property names
  the program reads (\<open>timestamp\<close>, \<open>description\<close>, \<open>text\<close>, \<open>relatedSegments\<close>,
  \<open>summary\<close>, \<open>keyMoments\<close>): an object yields its property, a primitive or an array
  has none of them and yields \<open>undefined\<close>.
\<close>

fun getProp :: "jsval \<Rightarrow> jsstring \<Rightarrow> jsval option" where
  "getProp (JObj kvs) k = map_of kvs k"
| "getProp v k = None"

text \<open>\<open>v?.k\<close> on a value that may be \<open>null\<close> or \<open>undefined\<close>.\<close>

fun optProp :: "jsval option \<Rightarrow> jsstring \<Rightarrow> jsval option" where
  "optProp None k = None"
| "optProp (Some JNull) k = None"
| "optProp (Some v) k = getProp v k"

section \<open>Data model (types.ts)\<close>

text \<open>
  The interfaces declare the fields of a highlight, of an answer and the summary as
  strings. \<open>applyCorrections\<close> stores correction values cast to \<open>any\<close> into them, so at
  run time they hold whatever JSON value the validation model sent; the fields are
  therefore dynamic values here, and a field that is a string is a \<open>JStr\<close>.

  The shape of an issue is taken as \<open>ValidationIssue\<close> declares it: \<open>field\<close> and
  \<open>action\<close> are one of the listed names, and \<open>index\<close> is an integer or absent. Only
  \<open>correction.value\<close>, which the program itself treats as \<open>any\<close>, is dynamic.
\<close>

record Highlight =
  timestamp :: jsval
  description :: jsval

record UserAnswerResult =
  answerText :: jsval
  relatedSegments :: jsval

record AnalysisResult =
  customAnswer :: "UserAnswerResult option"
  summary :: jsval
  keyMoments :: "Highlight list"

datatype ValidationField = FSummary | FKeyMoments | FCustomAnswer

datatype IssueType =
  IncorrectTimestamp | Hallucination | MissingInfo | InaccurateDescription | WrongLanguage

datatype CorrectionAction = Replace | Remove | Add

record ValidationCorrection =
  action :: CorrectionAction
  corrValue :: "jsval option"

record ValidationIssue =
  field :: ValidationField
  index :: "int option"
  issueType :: IssueType
  issueDescription :: jsstring
  correction :: ValidationCorrection

record ValidationResult =
  isValid :: bool
  issues :: "ValidationIssue list"

definition fieldName :: "ValidationField \<Rightarrow> jsstring" where
  "fieldName f = (case f of FSummary \<Rightarrow> js ''summary'' | FKeyMoments \<Rightarrow> js ''keyMoments''
                  | FCustomAnswer \<Rightarrow> js ''customAnswer'')"

section \<open>Correction engine (geminiService.ts)\<close>

subsection \<open>sanitizeKeyMoments\<close>

text \<open>
  \<open>sanitizeKeyMoments(moments: unknown)\<close>: not an array gives the empty list; otherwise
  every element becomes a highlight of two strings (the trimmed field when it is a
  string, the empty string otherwise) and the highlights with an empty field are dropped.
\<close>

definition trimmedString :: "jsval option \<Rightarrow> jsstring" where
  "trimmedString v = (case v of Some (JStr s) \<Rightarrow> trim s | _ \<Rightarrow> [])"

definition sanitizeMoment :: "jsval \<Rightarrow> Highlight" where
  "sanitizeMoment moment =
     \<lparr>timestamp = JStr (trimmedString (optProp (Some moment) (js ''timestamp''))),
      description = JStr (trimmedString (optProp (Some moment) (js ''description'')))\<rparr>"

definition jsLength :: "jsval \<Rightarrow> nat" where
  "jsLength v = (case v of JStr s \<Rightarrow> length s | _ \<Rightarrow> 0)"

definition sanitizeKeyMoments :: "jsval option \<Rightarrow> Highlight list" where
  "sanitizeKeyMoments moments =
     (case moments of
        Some (JArr ms) \<Rightarrow>
          filter (\<lambda>moment. jsLength (timestamp moment) > 0 \<and> jsLength (description moment) > 0)
            (map sanitizeMoment ms)
      | _ \<Rightarrow> [])"

text \<open>A highlight list seen as the array of objects it is, to pass it as \<open>unknown\<close>.\<close>

definition highlightJs :: "Highlight \<Rightarrow> jsval" where
  "highlightJs h = JObj [(js ''timestamp'', timestamp h), (js ''description'', description h)]"

definition momentsJs :: "Highlight list \<Rightarrow> jsval option" where
  "momentsJs hs = Some (JArr (map highlightJs hs))"

subsection \<open>applyCorrections\<close>

text \<open>
  \<open>a.field.localeCompare(b.field)\<close>. The two operands are field names, three ASCII words
  with the distinct initials c, k and s, on which every collation agrees with the order
  of the code units; the model compares code units.
\<close>

fun localeCompare :: "jsstring \<Rightarrow> jsstring \<Rightarrow> int" where
  "localeCompare [] [] = 0"
| "localeCompare [] (y # ys) = -1"
| "localeCompare (x # xs) [] = 1"
| "localeCompare (x # xs) (y # ys) =
     (if x < y then -1 else if y < x then 1 else localeCompare xs ys)"

definition indexOr0 :: "ValidationIssue \<Rightarrow> int" where
  "indexOr0 a = (case index a of None \<Rightarrow> 0 | Some i \<Rightarrow> i)"

definition isRemove :: "ValidationIssue \<Rightarrow> bool" where
  "isRemove a = (action (correction a) = Remove)"

text \<open>The comparator handed to \<open>sort\<close>.\<close>

definition compareIssues :: "ValidationIssue \<Rightarrow> ValidationIssue \<Rightarrow> int" where
  "compareIssues a b =
     (if field a \<noteq> field b then localeCompare (fieldName (field a)) (fieldName (field b))
      else if isRemove a \<and> \<not> isRemove b then 1
      else if \<not> isRemove a \<and> isRemove b then -1
      else indexOr0 b - indexOr0 a)"

text \<open>
  \<open>[...issues].sort(cmp)\<close> sorts a copy, stably. A stable insertion sort stands for it:
  an element goes in front of the first element it does not compare greater than.
\<close>

fun insertIssue :: "ValidationIssue \<Rightarrow> ValidationIssue list \<Rightarrow> ValidationIssue list" where
  "insertIssue x [] = [x]"
| "insertIssue x (y # ys) =
     (if compareIssues x y \<le> 0 then x # y # ys else y # insertIssue x ys)"

definition sortIssues :: "ValidationIssue list \<Rightarrow> ValidationIssue list" where
  "sortIssues xs = foldr insertIssue xs []"

text \<open>\<open>xs.splice(i, 1)\<close> for \<open>i \<ge> 0\<close>: drops the element at \<open>i\<close>, nothing past the end.\<close>

definition splice1 :: "nat \<Rightarrow> 'a list \<Rightarrow> 'a list" where
  "splice1 i xs = take i xs @ drop (Suc i) xs"

text \<open>\<open>xs[i]?.timestamp\<close> for \<open>i \<ge> 0\<close>: \<open>undefined\<close> past the end.\<close>

definition timestampAt :: "Highlight list \<Rightarrow> nat \<Rightarrow> jsval option" where
  "timestampAt xs i = (if i < length xs then Some (timestamp (xs ! i)) else None)"

definition orDefault :: "jsval option \<Rightarrow> jsval \<Rightarrow> jsval" where
  "orDefault v d = (case jsOr v (Some d) of Some x \<Rightarrow> x | None \<Rightarrow> d)"

definition newAnswer :: "jsval \<Rightarrow> UserAnswerResult" where
  "newAnswer v =
     \<lparr>answerText = orDefault (getProp v (js ''text'')) (JStr []),
      relatedSegments = orDefault (getProp v (js ''relatedSegments'')) (JArr [])\<rparr>"

definition applySummary :: "AnalysisResult \<Rightarrow> ValidationCorrection \<Rightarrow> AnalysisResult" where
  "applySummary r c =
     (if action c = Replace \<and> truthyU (corrValue c) then
        (case corrValue c of
           Some (JStr s) \<Rightarrow> r\<lparr>summary := JStr s\<rparr>
         | Some v \<Rightarrow>
             (let newValue = jsOr (getProp v (js ''text'')) (getProp v (js ''description''))
              in if truthyU newValue then (case newValue of Some n \<Rightarrow> r\<lparr>summary := n\<rparr> | None \<Rightarrow> r)
                 else r)
         | None \<Rightarrow> r)
      else r)"

text \<open>
  The test \<open>index !== undefined && index >= 0\<close>: the position in the array when the
  index is present and not negative.
\<close>

definition validIndex :: "int option \<Rightarrow> nat option" where
  "validIndex idx = (case idx of None \<Rightarrow> None | Some i \<Rightarrow> if i \<ge> 0 then Some (nat i) else None)"

definition applyKeyMoments ::
  "AnalysisResult \<Rightarrow> int option \<Rightarrow> ValidationCorrection \<Rightarrow> AnalysisResult" where
  "applyKeyMoments r idx c =
     (case validIndex idx of
        Some i \<Rightarrow>
          (if action c = Remove then r\<lparr>keyMoments := splice1 i (keyMoments r)\<rparr>
           else if action c = Replace \<and> truthyU (corrValue c) then
             (case corrValue c of
                Some v \<Rightarrow>
                  (let newMoment =
                     \<lparr>timestamp =
                        orDefault (jsOr (getProp v (js ''timestamp'')) (timestampAt (keyMoments r) i))
                          (JStr (js ''00:00'')),
                      description =
                        orDefault (jsOr (getProp v (js ''description'')) (getProp v (js ''text'')))
                          (JStr [])\<rparr>
                   in if i < length (keyMoments r)
                      then r\<lparr>keyMoments := (keyMoments r)[i := newMoment]\<rparr>
                      else r)
              | None \<Rightarrow> r)
           else r)
      | None \<Rightarrow>
          (if action c = Add \<and> truthyU (corrValue c) then
             (case corrValue c of
                Some v \<Rightarrow>
                  (let newMoment =
                     \<lparr>timestamp = orDefault (getProp v (js ''timestamp'')) (JStr (js ''00:00'')),
                      description =
                        orDefault (jsOr (getProp v (js ''description'')) (getProp v (js ''text'')))
                          (JStr [])\<rparr>
                   in r\<lparr>keyMoments := keyMoments r @ [newMoment]\<rparr>)
              | None \<Rightarrow> r)
           else r))"

definition applyCustomAnswer :: "AnalysisResult \<Rightarrow> ValidationCorrection \<Rightarrow> AnalysisResult" where
  "applyCustomAnswer r c =
     (if action c = Remove then r\<lparr>customAnswer := None\<rparr>
      else if action c = Replace \<and> truthyU (corrValue c) then
        (case corrValue c of Some v \<Rightarrow> r\<lparr>customAnswer := Some (newAnswer v)\<rparr> | None \<Rightarrow> r)
      else if action c = Add \<and> truthyU (corrValue c) \<and> customAnswer r = None then
        (case corrValue c of Some v \<Rightarrow> r\<lparr>customAnswer := Some (newAnswer v)\<rparr> | None \<Rightarrow> r)
      else r)"

text \<open>The body of the loop: one issue applied to the copy being corrected.\<close>

definition applyIssue :: "AnalysisResult \<Rightarrow> ValidationIssue \<Rightarrow> AnalysisResult" where
  "applyIssue r issue =
     (case field issue of
        FSummary \<Rightarrow> applySummary r (correction issue)
      | FKeyMoments \<Rightarrow> applyKeyMoments r (index issue) (correction issue)
      | FCustomAnswer \<Rightarrow> applyCustomAnswer r (correction issue))"

definition applyCorrections :: "AnalysisResult \<Rightarrow> ValidationIssue list \<Rightarrow> AnalysisResult" where
  "applyCorrections result issueList = foldl applyIssue result (sortIssues issueList)"

subsection \<open>applyCorrections and the object it is given\<close>

text \<open>
  \<open>applyCorrections\<close> receives a reference to the result, copies it with
  \<open>JSON.parse(JSON.stringify(result))\<close> and writes only through the copy:
  \<open>correctedResult.summary\<close>, \<open>correctedResult.customAnswer\<close> and the array
  \<open>correctedResult.keyMoments\<close> (\<open>splice\<close>, assignment at an index, \<open>push\<close>). To
  follow what happens to the object of the caller, the store is a list of cells
  addressed by position: a result object, which holds the address of its array of key
  moments, and an array. Highlights and answers are never written in place and stay
  values. The copy allocates a new array and a new result object at the end of the store.
\<close>

datatype cell =
    ResultObject "UserAnswerResult option" jsval nat
  | ArrayObject "Highlight list"

type_synonym heap = "cell list"

definition readResult :: "heap \<Rightarrow> nat \<Rightarrow> AnalysisResult option" where
  "readResult h a =
     (if a < length h then
        (case h ! a of
           ResultObject ca s k \<Rightarrow>
             (if k < length h then
                (case h ! k of
                   ArrayObject hs \<Rightarrow> Some \<lparr>customAnswer = ca, summary = s, keyMoments = hs\<rparr>
                 | _ \<Rightarrow> None)
              else None)
         | _ \<Rightarrow> None)
      else None)"

definition jsonClone :: "heap \<Rightarrow> nat \<Rightarrow> (heap \<times> nat) option" where
  "jsonClone h a =
     (case readResult h a of
        None \<Rightarrow> None
      | Some r \<Rightarrow>
          Some (h @ [ArrayObject (keyMoments r),
                     ResultObject (customAnswer r) (summary r) (length h)],
                Suc (length h)))"

text \<open>
  The writes of the loop. Each goes through the reference \<open>correctedResult\<close>: to its
  property \<open>summary\<close>, to its property \<open>customAnswer\<close>, or to the array that its property
  \<open>keyMoments\<close> refers to.
\<close>

definition writeSummary :: "heap \<Rightarrow> nat \<Rightarrow> jsval \<Rightarrow> heap" where
  "writeSummary h a v =
     (case h ! a of ResultObject ca s k \<Rightarrow> h[a := ResultObject ca v k] | _ \<Rightarrow> h)"

definition writeCustomAnswer :: "heap \<Rightarrow> nat \<Rightarrow> UserAnswerResult option \<Rightarrow> heap" where
  "writeCustomAnswer h a x =
     (case h ! a of ResultObject ca s k \<Rightarrow> h[a := ResultObject x s k] | _ \<Rightarrow> h)"

definition keyMomentsOf :: "heap \<Rightarrow> nat \<Rightarrow> nat" where
  "keyMomentsOf h a = (case h ! a of ResultObject ca s k \<Rightarrow> k | _ \<Rightarrow> a)"

definition writeElements :: "heap \<Rightarrow> nat \<Rightarrow> Highlight list \<Rightarrow> heap" where
  "writeElements h k hs = (case h ! k of ArrayObject old \<Rightarrow> h[k := ArrayObject hs] | _ \<Rightarrow> h)"

text \<open>
  The body of the loop on the store: the \<open>switch\<close> on the field, each case writing the
  one thing it assigns.
\<close>

definition applyIssueInPlace :: "nat \<Rightarrow> heap \<Rightarrow> ValidationIssue \<Rightarrow> heap" where
  "applyIssueInPlace correctedResult h issue =
     (case readResult h correctedResult of
        None \<Rightarrow> h
      | Some r \<Rightarrow>
          (case field issue of
             FSummary \<Rightarrow>
               writeSummary h correctedResult (summary (applySummary r (correction issue)))
           | FKeyMoments \<Rightarrow>
               writeElements h (keyMomentsOf h correctedResult)
                 (keyMoments (applyKeyMoments r (index issue) (correction issue)))
           | FCustomAnswer \<Rightarrow>
               writeCustomAnswer h correctedResult
                 (customAnswer (applyCustomAnswer r (correction issue)))))"

definition applyCorrectionsInPlace ::
  "heap \<Rightarrow> nat \<Rightarrow> ValidationIssue list \<Rightarrow> (heap \<times> nat) option" where
  "applyCorrectionsInPlace h resultRef issueList =
     (case jsonClone h resultRef of
        None \<Rightarrow> None
      | Some (h1, correctedResult) \<Rightarrow>
          Some (foldl (applyIssueInPlace correctedResult) h1 (sortIssues issueList), correctedResult))"

section \<open>Errors and the response parser (geminiService.ts)\<close>

text \<open>
  What a \<open>throw\<close> or a rejected promise carries. \<open>TimeoutError\<close> is the class of
  App.tsx, tested with \<open>instanceof\<close>; it keeps the operation name and the timeout it
  was built from. Any other thrown value is seen through the two properties the program
  reads, \<open>name\<close> and \<open>message\<close>, each a string or \<open>undefined\<close>.
\<close>

datatype jserror =
    TimeoutError jsstring nat
  | Thrown "jsstring option" "jsstring option"

text \<open>\<open>new Error(message)\<close>\<close>

definition newError :: "jsstring \<Rightarrow> jserror" where
  "newError msg = Thrown (Some (js ''Error'')) (Some msg)"

text \<open>
  A line written with \<open>console.error\<close> (its label, and the text logged with it when
  that is a string) or with \<open>console.warn\<close> (its label).
\<close>

datatype logLine =
    ConsoleError jsstring "jsstring option"
  | ConsoleWarn jsstring

text \<open>
  The two regular expressions of \<open>extractJsonFromText\<close> are
  \<open>/```json([\s\S]*?)```/i\<close> and \<open>/```([\s\S]*?)```/i\<close>. A pattern here is a list of
  predicates on code units; \<open>findPat\<close> returns the leftmost position where it matches.
  The group is lazy, so a match that opens at a position closes at the first closing
  fence after the opening; and if no fence closes the leftmost opening, no later opening
  exists that one could close (a later opening is itself three backquotes after the
  leftmost one). So the match is: leftmost opening, then leftmost closing fence after it.
\<close>

fun matchesAt :: "(nat \<Rightarrow> bool) list \<Rightarrow> jsstring \<Rightarrow> bool" where
  "matchesAt [] s = True"
| "matchesAt (p # ps) [] = False"
| "matchesAt (p # ps) (c # cs) = (p c \<and> matchesAt ps cs)"

fun findPat :: "(nat \<Rightarrow> bool) list \<Rightarrow> jsstring \<Rightarrow> nat option" where
  "findPat pat [] = (if matchesAt pat [] then Some 0 else None)"
| "findPat pat (c # cs) =
     (if matchesAt pat (c # cs) then Some 0 else map_option Suc (findPat pat cs))"

definition lit :: "nat \<Rightarrow> nat \<Rightarrow> bool" where
  "lit a c = (c = a)"

text \<open>A letter under the flag \<open>i\<close>: the lower-case or the upper-case ASCII letter.\<close>

definition litCI :: "nat \<Rightarrow> nat \<Rightarrow> bool" where
  "litCI a c = (c = a \<or> c + 32 = a)"

definition fence :: "(nat \<Rightarrow> bool) list" where
  "fence = [lit 96, lit 96, lit 96]"

definition fenceJson :: "(nat \<Rightarrow> bool) list" where
  "fenceJson = fence @ [litCI 106, litCI 115, litCI 111, litCI 110]"

text \<open>\<open>raw.match(/opening([\s\S]*?)```/i)\<close>: the captured group, if the pattern matches.\<close>

definition matchFenced :: "(nat \<Rightarrow> bool) list \<Rightarrow> jsstring \<Rightarrow> jsstring option" where
  "matchFenced opening raw =
     (case findPat opening raw of
        None \<Rightarrow> None
      | Some p \<Rightarrow>
          (let rest = drop (p + length opening) raw
           in case findPat fence rest of None \<Rightarrow> None | Some q \<Rightarrow> Some (take q rest)))"

text \<open>\<open>indexOf\<close> and \<open>lastIndexOf\<close> of one code unit; \<open>None\<close> is the result -1.\<close>

definition indexOf :: "nat \<Rightarrow> jsstring \<Rightarrow> nat option" where
  "indexOf c s = findPat [lit c] s"

definition lastIndexOf :: "nat \<Rightarrow> jsstring \<Rightarrow> nat option" where
  "lastIndexOf c s =
     (case findPat [lit c] (rev s) of None \<Rightarrow> None | Some k \<Rightarrow> Some (length s - 1 - k))"

text \<open>\<open>s.slice(a, b)\<close> for \<open>0 \<le> a\<close> and \<open>0 \<le> b\<close>.\<close>

definition slice :: "nat \<Rightarrow> nat \<Rightarrow> jsstring \<Rightarrow> jsstring" where
  "slice a b s = take (b - a) (drop a s)"

definition extractJsonFromText :: "jsstring \<Rightarrow> jsstring" where
  "extractJsonFromText raw =
     (let fenced = (case matchFenced fenceJson raw of
                      Some g \<Rightarrow> Some g
                    | None \<Rightarrow> matchFenced fence raw)
      in case fenced of
           Some (c # cs) \<Rightarrow> trim (c # cs)
         | _ \<Rightarrow>
           (case (indexOf 123 raw, lastIndexOf 125 raw) of
              (Some firstBrace, Some lastBrace) \<Rightarrow>
                if lastBrace > firstBrace then slice firstBrace (lastBrace + 1) raw
                else trim raw
            | _ \<Rightarrow> trim raw))"

definition invalidJson :: "jsstring \<Rightarrow> jserror" where
  "invalidJson context = newError (context @ js '' returned invalid JSON'')"

text \<open>
  \<open>parseJsonContent<T>(raw, context)\<close>. \<open>JSON.parse\<close> followed by the unchecked cast
  to \<open>T\<close> is the parameter \<open>parse\<close>, with \<open>None\<close> when it throws. The result comes with
  the lines written to the console, in order.
\<close>

definition parseJsonContent ::
  "(jsstring \<Rightarrow> 'a option) \<Rightarrow> jsstring \<Rightarrow> jsstring \<Rightarrow> logLine list \<times> (jserror + 'a)" where
  "parseJsonContent parse raw context =
     (case parse raw of
        Some v \<Rightarrow> ([], Inr v)
      | None \<Rightarrow>
          (let fallback = extractJsonFromText raw
           in if fallback \<noteq> raw then
                (case parse fallback of
                   Some v \<Rightarrow> ([], Inr v)
                 | None \<Rightarrow>
                     ([ConsoleError (context @ js '' JSON parse failed'') None,
                       ConsoleError (context @ js '' raw response'') (Some raw)],
                      Inl (invalidJson context)))
              else ([ConsoleError (context @ js '' raw response'') (Some raw)],
                    Inl (invalidJson context))))"

subsection \<open>JSON.parse\<close>

text \<open>
  \<open>JSON.parse\<close> belongs to the platform, not to the program, and the definitions
  above take it as a parameter. To run them on concrete responses, \<open>jsonParse\<close> is a
  reader of the JSON grammar (ECMA-404): it returns \<open>None\<close> where \<open>JSON.parse\<close>
  throws a SyntaxError. A number is kept as the rational its literal denotes, a repeated
  key keeps its first place and its last value, and the properties of an object stay in
  the order of the text. The recursion is bounded by the length of the text, which every
  nested value shortens.
\<close>

definition isJsonSpace :: "nat \<Rightarrow> bool" where
  "isJsonSpace c = (c = 32 \<or> c = 9 \<or> c = 10 \<or> c = 13)"

definition skipWs :: "jsstring \<Rightarrow> jsstring" where
  "skipWs s = dropWhile isJsonSpace s"

definition isDigit :: "nat \<Rightarrow> bool" where
  "isDigit c = (48 \<le> c \<and> c \<le> 57)"

definition digitsValue :: "jsstring \<Rightarrow> nat" where
  "digitsValue ds = foldl (\<lambda>a d. 10 * a + (d - 48)) 0 ds"

definition hexValue :: "nat \<Rightarrow> nat option" where
  "hexValue c =
     (if 48 \<le> c \<and> c \<le> 57 then Some (c - 48)
      else if 97 \<le> c \<and> c \<le> 102 then Some (c - 87)
      else if 65 \<le> c \<and> c \<le> 70 then Some (c - 55)
      else None)"

definition hex4 :: "jsstring \<Rightarrow> nat option" where
  "hex4 s =
     (case map hexValue (take 4 s) of
        [Some a, Some b, Some c, Some d] \<Rightarrow> Some (((a * 16 + b) * 16 + c) * 16 + d)
      | _ \<Rightarrow> None)"

definition escapeOf :: "nat \<Rightarrow> nat option" where
  "escapeOf e =
     (if e = 34 \<or> e = 92 \<or> e = 47 then Some e
      else if e = 98 then Some 8
      else if e = 102 then Some 12
      else if e = 110 then Some 10
      else if e = 114 then Some 13
      else if e = 116 then Some 9
      else None)"

text \<open>The characters of a string after its opening quote, up to the closing quote.\<close>

fun stringBody :: "nat \<Rightarrow> jsstring \<Rightarrow> jsstring \<Rightarrow> (jsstring \<times> jsstring) option" where
  "stringBody 0 s acc = None"
| "stringBody (Suc n) [] acc = None"
| "stringBody (Suc n) (c # cs) acc =
     (if c = 34 then Some (rev acc, cs)
      else if c = 92 then
        (case cs of
           [] \<Rightarrow> None
         | e # es \<Rightarrow>
             if e = 117 then
               (case hex4 es of
                  None \<Rightarrow> None
                | Some u \<Rightarrow> stringBody n (drop 4 es) (u # acc))
             else (case escapeOf e of
                     None \<Rightarrow> None
                   | Some x \<Rightarrow> stringBody n es (x # acc)))
      else if c < 32 then None
      else stringBody n cs (c # acc))"

definition parseNumber :: "jsstring \<Rightarrow> (jsval \<times> jsstring) option" where
  "parseNumber s =
     (let negative = (s \<noteq> [] \<and> hd s = 45);
          s1 = (if negative then tl s else s);
          intDigits = takeWhile isDigit s1;
          s2 = dropWhile isDigit s1;
          hasFrac = (s2 \<noteq> [] \<and> hd s2 = 46);
          fracDigits = (if hasFrac then takeWhile isDigit (tl s2) else []);
          s3 = (if hasFrac then dropWhile isDigit (tl s2) else s2);
          hasExp = (s3 \<noteq> [] \<and> (hd s3 = 101 \<or> hd s3 = 69));
          s4 = (if hasExp then tl s3 else s3);
          expNegative = (hasExp \<and> s4 \<noteq> [] \<and> hd s4 = 45);
          s5 = (if hasExp \<and> s4 \<noteq> [] \<and> (hd s4 = 45 \<or> hd s4 = 43) then tl s4 else s4);
          expDigits = (if hasExp then takeWhile isDigit s5 else []);
          s6 = (if hasExp then dropWhile isDigit s5 else s3);
          mantissa = (of_nat (digitsValue intDigits) :: rat)
                       + of_nat (digitsValue fracDigits) / 10 ^ length fracDigits;
          scaled = (if expNegative then mantissa / 10 ^ digitsValue expDigits
                    else mantissa * 10 ^ digitsValue expDigits)
      in if intDigits = [] \<or> (length intDigits > 1 \<and> hd intDigits = 48) then None
         else if hasFrac \<and> fracDigits = [] then None
         else if hasExp \<and> expDigits = [] then None
         else Some (JNum (if negative then - scaled else scaled), s6))"

definition setProp :: "jsstring \<Rightarrow> jsval \<Rightarrow> (jsstring \<times> jsval) list \<Rightarrow> (jsstring \<times> jsval) list" where
  "setProp k v kvs =
     (if k \<in> fst ` set kvs then map (\<lambda>kv. if fst kv = k then (k, v) else kv) kvs
      else kvs @ [(k, v)])"

definition startsWith :: "jsstring \<Rightarrow> jsstring \<Rightarrow> bool" where
  "startsWith w s = (take (length w) s = w)"

text \<open>
  \<open>parseValue n s\<close> reads one value at the head of \<open>s\<close> (after white space) and returns
  it with the rest of the text; \<open>parseElements\<close> reads the elements of an array after
  its first, \<open>parseMembers\<close> the members of an object, both up to the closing bracket.
\<close>

fun parseValue :: "nat \<Rightarrow> jsstring \<Rightarrow> (jsval \<times> jsstring) option"
  and parseElements :: "nat \<Rightarrow> jsval list \<Rightarrow> jsstring \<Rightarrow> (jsval \<times> jsstring) option"
  and parseMembers :: "nat \<Rightarrow> (jsstring \<times> jsval) list \<Rightarrow> jsstring \<Rightarrow> (jsval \<times> jsstring) option"
where
  "parseValue 0 s = None"
| "parseValue (Suc n) s =
     (case skipWs s of
        [] \<Rightarrow> None
      | c # cs \<Rightarrow>
          if c = 34 then
            (case stringBody (length cs + 1) cs [] of
               None \<Rightarrow> None
             | Some (str, rest) \<Rightarrow> Some (JStr str, rest))
          else if c = 91 then
            (case skipWs cs of
               [] \<Rightarrow> None
             | d # ds \<Rightarrow>
                 if d = 93 then Some (JArr [], ds)
                 else (case parseValue n cs of
                         None \<Rightarrow> None
                       | Some (v, rest) \<Rightarrow> parseElements n [v] rest))
          else if c = 123 then
            (case skipWs cs of
               [] \<Rightarrow> None
             | d # ds \<Rightarrow> if d = 125 then Some (JObj [], ds) else parseMembers n [] cs)
          else if startsWith (js ''null'') (c # cs) then Some (JNull, drop 4 (c # cs))
          else if startsWith (js ''true'') (c # cs) then Some (JBool True, drop 4 (c # cs))
          else if startsWith (js ''false'') (c # cs) then Some (JBool False, drop 5 (c # cs))
          else parseNumber (c # cs))"
| "parseElements 0 acc s = None"
| "parseElements (Suc n) acc s =
     (case skipWs s of
        [] \<Rightarrow> None
      | c # cs \<Rightarrow>
          if c = 93 then Some (JArr acc, cs)
          else if c = 44 then
            (case parseValue n cs of
               None \<Rightarrow> None
             | Some (v, rest) \<Rightarrow> parseElements n (acc @ [v]) rest)
          else None)"
| "parseMembers 0 acc s = None"
| "parseMembers (Suc n) acc s =
     (case skipWs s of
        [] \<Rightarrow> None
      | c # cs \<Rightarrow>
          if c = 34 then
            (case stringBody (length cs + 1) cs [] of
               None \<Rightarrow> None
             | Some (k, rest) \<Rightarrow>
                 (case skipWs rest of
                    [] \<Rightarrow> None
                  | d # ds \<Rightarrow>
                      if d = 58 then
                        (case parseValue n ds of
                           None \<Rightarrow> None
                         | Some (v, rest') \<Rightarrow>
                             (case skipWs rest' of
                                [] \<Rightarrow> None
                              | e # es \<Rightarrow>
                                  if e = 125 then Some (JObj (setProp k v acc), es)
                                  else if e = 44 then parseMembers n (setProp k v acc) es
                                  else None))
                      else None))
          else None)"

definition jsonParse :: "jsstring \<Rightarrow> jsval option" where
  "jsonParse s =
     (case parseValue (length s + 1) s of
        None \<Rightarrow> None
      | Some (v, rest) \<Rightarrow> if skipWs rest = [] then Some v else None)"

section \<open>Provider operations (geminiService.ts)\<close>

text \<open>
  An \<open>async\<close> function returns a promise. A promise is modelled by what its caller
  observes: it resolves with a value, it rejects with an error, or it is still pending
  when the caller stops waiting.
\<close>

datatype 'a promise = Pending | Rejected jserror | Resolved 'a

datatype LLMProvider = Google | Openai | Anthropic | Groq | Deepseek

record ApiCredentials =
  provider :: LLMProvider
  key :: jsstring

record LanguageOption =
  code :: jsstring
  name :: jsstring
  flag :: jsstring

record LLMOptions =
  temperature :: "rat option"
  maxTokens :: "nat option"
  maxRetries :: "nat option"
  model :: "jsstring option"

text \<open>The configuration handed to the constructor of the LangChain chat model.\<close>

record llmClient =
  clientProvider :: LLMProvider
  clientApiKey :: jsstring
  clientModel :: jsstring
  clientTemperature :: rat
  clientMaxTokens :: "nat option"
  clientMaxRetries :: nat

text \<open>
  A prompt is a constant template with values interpolated. It is represented by the
  builder that made it and the values the builder was given, in the order of its
  parameters; \<open>AnalyzeIn\<close> is the text \<open>Analyze in <name> (<code>)\<close> and \<open>RespondWithOK\<close>
  the text \<open>Respond with OK\<close>.
\<close>

datatype prompt =
    QuestionPrompt jsstring jsstring jsstring jsstring
  | SummaryPrompt jsstring jsstring jsstring
  | ValidationPrompt AnalysisResult jsstring prompt jsstring jsstring
  | AnalyzeIn jsstring jsstring
  | RespondWithOK

text \<open>What an operation does to the outside, in order.\<close>

datatype effect =
    ClientCreated llmClient
  | PromptBuilt prompt
  | ProviderCalled llmClient prompt

definition DEFAULT_MODELS :: "LLMProvider \<Rightarrow> jsstring" where
  "DEFAULT_MODELS p =
     (case p of
        Google \<Rightarrow> js ''gemini-2.5-flash''
      | Openai \<Rightarrow> js ''o4-mini''
      | Anthropic \<Rightarrow> js ''claude-sonnet-4-5-20250929''
      | Groq \<Rightarrow> js ''llama-3.3-70b-versatile''
      | Deepseek \<Rightarrow> js ''deepseek-chat'')"

definition sanitizeLanguage :: "LanguageOption option \<Rightarrow> jsstring \<times> jsstring" where
  "sanitizeLanguage targetLanguage =
     (case targetLanguage of
        None \<Rightarrow> (js ''English'', js ''en'')
      | Some l \<Rightarrow> (name l, code l))"

definition sanitizeTranscript :: "jsstring \<Rightarrow> jsstring" where
  "sanitizeTranscript v = trim v"

text \<open>
  \<open>ensureCredentials\<close> throws when the credentials are \<open>null\<close> or the trimmed key is
  empty; otherwise it returns, and the caller goes on with the credentials.
\<close>

definition ensureCredentials :: "ApiCredentials option \<Rightarrow> jserror + ApiCredentials" where
  "ensureCredentials credentials =
     (case credentials of
        None \<Rightarrow> Inl (newError (js ''API Key not configured''))
      | Some c \<Rightarrow>
          if trim (key c) = [] then Inl (newError (js ''API Key not configured'')) else Inr c)"

definition createLLM :: "ApiCredentials \<Rightarrow> LLMOptions \<Rightarrow> jserror + llmClient" where
  "createLLM credentials options =
     (case ensureCredentials (Some credentials) of
        Inl e \<Rightarrow> Inl e
      | Inr c \<Rightarrow>
          Inr \<lparr>clientProvider = provider c,
               clientApiKey = trim (key c),
               clientModel = (case model options of None \<Rightarrow> DEFAULT_MODELS (provider c) | Some m \<Rightarrow> m),
               clientTemperature = (case temperature options of None \<Rightarrow> 3 / 10 | Some t \<Rightarrow> t),
               clientMaxTokens = maxTokens options,
               clientMaxRetries = (case maxRetries options of None \<Rightarrow> 2 | Some n \<Rightarrow> n)\<rparr>)"

text \<open>
  \<open>invokeModelForJson\<close>: the answer of the provider, trimmed, must not be empty and is
  handed to \<open>parseJsonContent\<close>.
\<close>

definition invokeModelForJson ::
  "(jsstring \<Rightarrow> 'a option) \<Rightarrow> jsstring promise \<Rightarrow> jsstring \<Rightarrow> 'a promise" where
  "invokeModelForJson parse answer context =
     (case answer of
        Pending \<Rightarrow> Pending
      | Rejected e \<Rightarrow> Rejected e
      | Resolved txt \<Rightarrow>
          (let raw = trim txt
           in if raw = [] then Rejected (newError (context @ js '' returned an empty response''))
              else (case snd (parseJsonContent parse raw context) of
                      Inl e \<Rightarrow> Rejected e
                    | Inr v \<Rightarrow> Resolved v)))"

definition mapProviderLabel :: "LLMProvider \<Rightarrow> jsstring" where
  "mapProviderLabel p =
     (case p of
        Google \<Rightarrow> js ''Google Gemini''
      | Openai \<Rightarrow> js ''OpenAI''
      | Anthropic \<Rightarrow> js ''Anthropic''
      | Groq \<Rightarrow> js ''Groq''
      | Deepseek \<Rightarrow> js ''DeepSeek'')"

text \<open>The error of the \<open>catch\<close> of \<open>validateProviderCredentials\<close>, labelled by provider.\<close>

definition labelledError :: "LLMProvider \<Rightarrow> jserror \<Rightarrow> jserror" where
  "labelledError p e =
     (let providerLabel = mapProviderLabel p;
          trimmed = (case e of Thrown n (Some m) \<Rightarrow> trim m | _ \<Rightarrow> []);
          message = (if trimmed \<noteq> [] then trimmed
                     else js ''Unable to reach '' @ providerLabel @ js ''. Please verify the API key.'')
      in newError (providerLabel @ js '': '' @ message))"

text \<open>
  The provider is the parameter \<open>llm\<close>: what it answers to a prompt sent through a
  client. An operation returns what it did to the outside and its promise.
\<close>

definition validateProviderCredentials ::
  "(llmClient \<Rightarrow> prompt \<Rightarrow> jsstring promise) \<Rightarrow> ApiCredentials option
    \<Rightarrow> effect list \<times> unit promise" where
  "validateProviderCredentials llm credentials =
     (case ensureCredentials credentials of
        Inl e \<Rightarrow> ([], Rejected e)
      | Inr c \<Rightarrow>
          (case createLLM c \<lparr>temperature = Some 0, maxTokens = Some 8, maxRetries = Some 0,
                              model = None\<rparr> of
             Inl e \<Rightarrow> ([], Rejected (labelledError (provider c) e))
           | Inr client \<Rightarrow>
               ([ClientCreated client, ProviderCalled client RespondWithOK],
                (case llm client RespondWithOK of
                   Pending \<Rightarrow> Pending
                 | Rejected e \<Rightarrow> Rejected (labelledError (provider c) e)
                 | Resolved txt \<Rightarrow> Resolved ()))))"

text \<open>
  \<open>sanitizeUserAnswer(value)\<close> reads two properties of the parsed answer. Reading a
  property of \<open>null\<close> throws a TypeError (the message is the one of V8, the engine of
  the browser the extension runs in).
\<close>

definition nullRead :: "jsstring \<Rightarrow> jserror" where
  "nullRead k =
     Thrown (Some (js ''TypeError''))
       (Some (js ''Cannot read properties of null (reading '' @ [39] @ k @ [39] @ js '')''))"

definition sanitizeUserAnswer :: "jsval \<Rightarrow> jserror + UserAnswerResult" where
  "sanitizeUserAnswer v =
     (if v = JNull then Inl (nullRead (js ''text''))
      else Inr
        \<lparr>answerText = JStr (trimmedString (getProp v (js ''text''))),
         relatedSegments =
           (case getProp v (js ''relatedSegments'') of
              Some (JArr entries) \<Rightarrow>
                JArr (map JStr (filter (\<lambda>entry. length entry > 0)
                  (map (\<lambda>entry. trimmedString (Some entry)) entries)))
            | _ \<Rightarrow> JArr [])\<rparr>)"

definition answerUserQuestion ::
  "(llmClient \<Rightarrow> prompt \<Rightarrow> jsstring promise) \<Rightarrow> (jsstring \<Rightarrow> jsval option)
    \<Rightarrow> jsstring \<Rightarrow> jsstring \<Rightarrow> ApiCredentials option \<Rightarrow> LanguageOption option
    \<Rightarrow> effect list \<times> UserAnswerResult promise" where
  "answerUserQuestion llm parse transcript userQuery credentials targetLanguage =
     (case ensureCredentials credentials of
        Inl e \<Rightarrow> ([], Rejected e)
      | Inr c \<Rightarrow>
          (let (languageName, languageCode) = sanitizeLanguage targetLanguage;
               trimmed = sanitizeTranscript transcript;
               sanitizedTranscript =
                 (if trimmed \<noteq> [] then trimmed else js ''Transcript unavailable.'')
           in case createLLM c \<lparr>temperature = Some (1 / 4), maxTokens = Some 1024,
                                 maxRetries = Some 3, model = None\<rparr> of
                Inl e \<Rightarrow> ([], Rejected e)
              | Inr client \<Rightarrow>
                  (let p = QuestionPrompt sanitizedTranscript userQuery languageName languageCode
                   in ([ClientCreated client, PromptBuilt p, ProviderCalled client p],
                       (case invokeModelForJson parse (llm client p) (js ''answerUserQuestion'') of
                          Pending \<Rightarrow> Pending
                        | Rejected e \<Rightarrow> Rejected e
                        | Resolved response \<Rightarrow>
                            (case sanitizeUserAnswer response of
                               Inl e \<Rightarrow> Rejected e
                             | Inr a \<Rightarrow> Resolved a))))))"

text \<open>
  \<open>analyzeVideo\<close> also writes the module variable \<open>lastAnalysisPrompt\<close> (\<open>None\<close> is its
  initial empty string); the new value of the variable is the first component.
\<close>

definition analysisOf :: "jsval \<Rightarrow> jserror + AnalysisResult" where
  "analysisOf response =
     (if response = JNull then Inl (nullRead (js ''summary''))
      else Inr
        \<lparr>customAnswer = None,
         summary = (case getProp response (js ''summary'') of Some (JStr s) \<Rightarrow> JStr s | _ \<Rightarrow> JStr []),
         keyMoments = sanitizeKeyMoments (getProp response (js ''keyMoments''))\<rparr>)"

definition analyzeVideo ::
  "(llmClient \<Rightarrow> prompt \<Rightarrow> jsstring promise) \<Rightarrow> (jsstring \<Rightarrow> jsval option)
    \<Rightarrow> prompt option \<Rightarrow> jsstring \<Rightarrow> ApiCredentials option \<Rightarrow> LanguageOption option
    \<Rightarrow> prompt option \<times> effect list \<times> AnalysisResult promise" where
  "analyzeVideo llm parse lastAnalysisPrompt transcript credentials targetLanguage =
     (case ensureCredentials credentials of
        Inl e \<Rightarrow> (lastAnalysisPrompt, [], Rejected e)
      | Inr c \<Rightarrow>
          (let (languageName, languageCode) = sanitizeLanguage targetLanguage;
               trimmed = sanitizeTranscript transcript;
               sanitizedTranscript =
                 (if trimmed \<noteq> [] then trimmed
                  else js ''Transcript unavailable. Explain the limitation.'')
           in case createLLM c \<lparr>temperature = Some (3 / 10), maxTokens = Some 2048,
                                 maxRetries = Some 3, model = None\<rparr> of
                Inl e \<Rightarrow> (lastAnalysisPrompt, [], Rejected e)
              | Inr client \<Rightarrow>
                  (let p = SummaryPrompt sanitizedTranscript languageName languageCode
                   in (Some p,
                       [ClientCreated client, PromptBuilt p, ProviderCalled client p],
                       (case invokeModelForJson parse (llm client p) (js ''analyzeVideo'') of
                          Pending \<Rightarrow> Pending
                        | Rejected e \<Rightarrow> Rejected e
                        | Resolved response \<Rightarrow>
                            (case analysisOf response of
                               Inl e \<Rightarrow> Rejected e
                             | Inr a \<Rightarrow> Resolved a))))))"

text \<open>
  \<open>validateResult\<close> catches whatever the validation call throws and answers that the
  result is valid. \<open>parse\<close> here is \<open>JSON.parse\<close> with the cast to \<open>ValidationResult\<close>.
\<close>

definition validateResult ::
  "(llmClient \<Rightarrow> prompt \<Rightarrow> jsstring promise) \<Rightarrow> (jsstring \<Rightarrow> ValidationResult option)
    \<Rightarrow> llmClient \<Rightarrow> AnalysisResult \<Rightarrow> jsstring \<Rightarrow> prompt \<Rightarrow> jsstring \<Rightarrow> jsstring
    \<Rightarrow> effect list \<times> ValidationResult promise" where
  "validateResult llm parse client result transcript originalPrompt languageName languageCode =
     (let p = ValidationPrompt result transcript originalPrompt languageName languageCode
      in ([PromptBuilt p, ProviderCalled client p],
          (case invokeModelForJson parse (llm client p) (js ''validateResult'') of
             Pending \<Rightarrow> Pending
           | Rejected e \<Rightarrow> Resolved \<lparr>isValid = True, issues = []\<rparr>
           | Resolved v \<Rightarrow> Resolved v)))"

definition validateAndFixResult ::
  "(llmClient \<Rightarrow> prompt \<Rightarrow> jsstring promise) \<Rightarrow> (jsstring \<Rightarrow> ValidationResult option)
    \<Rightarrow> llmClient \<Rightarrow> AnalysisResult \<Rightarrow> jsstring \<Rightarrow> prompt \<Rightarrow> jsstring \<Rightarrow> jsstring
    \<Rightarrow> effect list \<times> AnalysisResult promise" where
  "validateAndFixResult llm parse client result transcript originalPrompt languageName languageCode =
     (case validateResult llm parse client result transcript originalPrompt languageName
             languageCode of
        (effs, Pending) \<Rightarrow> (effs, Pending)
      | (effs, Rejected e) \<Rightarrow> (effs, Rejected e)
      | (effs, Resolved validation) \<Rightarrow>
          (effs,
           if isValid validation \<or> length (issues validation) = 0 then
             Resolved (result\<lparr>keyMoments := sanitizeKeyMoments (momentsJs (keyMoments result))\<rparr>)
           else
             (let correctedResult = applyCorrections result (issues validation)
              in Resolved (correctedResult\<lparr>keyMoments :=
                   sanitizeKeyMoments (momentsJs (keyMoments correctedResult))\<rparr>))))"

definition improveResult ::
  "(llmClient \<Rightarrow> prompt \<Rightarrow> jsstring promise) \<Rightarrow> (jsstring \<Rightarrow> ValidationResult option)
    \<Rightarrow> prompt option \<Rightarrow> AnalysisResult \<Rightarrow> jsstring \<Rightarrow> ApiCredentials option
    \<Rightarrow> LanguageOption option \<Rightarrow> effect list \<times> AnalysisResult promise" where
  "improveResult llm parse lastAnalysisPrompt result transcript credentials targetLanguage =
     (case ensureCredentials credentials of
        Inl e \<Rightarrow> ([], Rejected e)
      | Inr c \<Rightarrow>
          (let (languageName, languageCode) = sanitizeLanguage targetLanguage;
               sanitizedTranscript = sanitizeTranscript transcript
           in case createLLM c \<lparr>temperature = Some (1 / 5), maxTokens = Some 2048,
                                 maxRetries = Some 3, model = None\<rparr> of
                Inl e \<Rightarrow> ([], Rejected e)
              | Inr client \<Rightarrow>
                  (let originalPrompt =
                         (case lastAnalysisPrompt of
                            Some p \<Rightarrow> p
                          | None \<Rightarrow> AnalyzeIn languageName languageCode);
                       (effs, out) = validateAndFixResult llm parse client result
                                       sanitizedTranscript originalPrompt languageName languageCode
                   in (ClientCreated client # effs, out))))"

section \<open>Timeout and retry (App.tsx)\<close>

definition SUMMARY_TIMEOUT_MS :: nat where
  "SUMMARY_TIMEOUT_MS = 45000"

definition MAX_RETRY_ATTEMPTS :: nat where
  "MAX_RETRY_ATTEMPTS = 3"

text \<open>
  \<open>withTimeout\<close> races the promise against a timer: the promise it returns always
  settles, with a \<open>TimeoutError\<close> when the given promise is still pending at the timeout.
\<close>

definition withTimeout :: "'a promise \<Rightarrow> nat \<Rightarrow> jsstring \<Rightarrow> jserror + 'a" where
  "withTimeout p timeoutMs operationName =
     (case p of
        Pending \<Rightarrow> Inl (TimeoutError operationName timeoutMs)
      | Rejected e \<Rightarrow> Inl e
      | Resolved v \<Rightarrow> Inr v)"

text \<open>
  \<open>message.toLowerCase().includes(w)\<close> for a word \<open>w\<close> of lower-case ASCII letters in
  which no \<open>i\<close> is the last letter. A code unit of the message gives the letter \<open>a\<close> of
  the lowered message when it is \<open>a\<close>, its upper-case ASCII letter, or, for \<open>k\<close>, the
  Kelvin sign U+212A; no other character has such a letter in its lower case, but U+0130,
  whose lower case is \<open>i\<close> followed by a combining dot and so never precedes a letter.
\<close>

definition lowersTo :: "nat \<Rightarrow> nat \<Rightarrow> bool" where
  "lowersTo a c = (c = a \<or> c + 32 = a \<or> (a = 107 \<and> c = 8490))"

definition lowerIncludes :: "jsstring \<Rightarrow> jsstring \<Rightarrow> bool" where
  "lowerIncludes message w = (findPat (map lowersTo w) message \<noteq> None)"

definition networkShaped :: "jsstring option \<Rightarrow> jsstring option \<Rightarrow> bool" where
  "networkShaped errName errMessage =
     ((case errMessage of
         None \<Rightarrow> False
       | Some m \<Rightarrow> lowerIncludes m (js ''network'') \<or> lowerIncludes m (js ''fetch'')
                     \<or> lowerIncludes m (js ''connection''))
      \<or> errName = Some (js ''TypeError''))"

definition isRetryable :: "jserror \<Rightarrow> bool" where
  "isRetryable error =
     (case error of
        TimeoutError operationName timeoutMs \<Rightarrow> True
      | Thrown errName errMessage \<Rightarrow> networkShaped errName errMessage)"

text \<open>
  A run of \<open>withTimeoutAndRetry\<close>: how it settles, how many times \<open>operation()\<close> was
  called, and the calls of \<open>onRetry\<close>. The parameter \<open>operation\<close> gives the promise
  that the \<open>k\<close>-th call of the operation returns.
\<close>

record 'a retryRun =
  outcome :: "jserror + 'a"
  calls :: nat
  retried :: "(nat \<times> jserror) list"

function retryLoop ::
  "(nat \<Rightarrow> 'a promise) \<Rightarrow> nat \<Rightarrow> nat \<Rightarrow> jsstring \<Rightarrow> jserror option \<Rightarrow> nat \<Rightarrow> 'a retryRun" where
  "retryLoop operation timeoutMs maxAttempts operationName lastError attempt =
     (if attempt \<le> maxAttempts then
        (case withTimeout (operation attempt) timeoutMs operationName of
           Inr v \<Rightarrow> \<lparr>outcome = Inr v, calls = attempt, retried = []\<rparr>
         | Inl error \<Rightarrow>
             if isRetryable error \<and> attempt < maxAttempts then
               (let run = retryLoop operation timeoutMs maxAttempts operationName (Some error)
                            (attempt + 1)
                in run\<lparr>retried := (attempt, error) # retried run\<rparr>)
             else \<lparr>outcome = Inl error, calls = attempt, retried = []\<rparr>)
      else
        \<lparr>outcome = Inl (case lastError of Some e \<Rightarrow> e | None \<Rightarrow> newError (js ''Unknown error'')),
         calls = attempt - 1, retried = []\<rparr>)"
  by pat_completeness auto
termination
  by (relation "measure (\<lambda>(operation, timeoutMs, maxAttempts, operationName, lastError, attempt).
        maxAttempts + 1 - attempt)") auto

declare retryLoop.simps [simp del]

definition withTimeoutAndRetry ::
  "(nat \<Rightarrow> 'a promise) \<Rightarrow> nat \<Rightarrow> nat \<Rightarrow> jsstring \<Rightarrow> 'a retryRun" where
  "withTimeoutAndRetry operation timeoutMs maxAttempts operationName =
     retryLoop operation timeoutMs maxAttempts operationName None 1"

text \<open>The test of the \<open>catch\<close> of \<open>handleSummarize\<close> that selects the timeout message.\<close>

definition isTimeoutErr :: "jserror \<Rightarrow> bool" where
  "isTimeoutErr err =
     (case err of
        TimeoutError operationName timeoutMs \<Rightarrow> True
      | Thrown errName errMessage \<Rightarrow> errName = Some (js ''TimeoutError''))"

section \<open>Result cache (summaryStorage.ts)\<close>

record StoredSummary =
  videoId :: jsstring
  storedResult :: AnalysisResult
  videoUrl :: jsstring
  language :: jsstring
  storedQuery :: jsstring
  createdAt :: nat
  updatedAt :: nat

text \<open>
  IndexedDB as the cache sees it: whether the module holds an open database, the error
  of \<open>indexedDB.open\<close> if it fails, the exception of \<open>db.transaction\<close> if it throws, the
  errors of the read and of the write request if they fail, and the entries by key.
\<close>

record storage =
  dbInstance :: bool
  openError :: "jserror option"
  transactionError :: "jserror option"
  readError :: "jserror option"
  putError :: "jserror option"
  entries :: "(jsstring \<times> StoredSummary) list"

text \<open>
  \<open>openDatabase\<close> returns the open database of the module variable \<open>dbInstance\<close>, or
  opens one and keeps it there. Every operation returns the lines it logged, its promise
  and the storage after the call.
\<close>

definition openDatabase :: "storage \<Rightarrow> logLine list \<times> (jserror + storage)" where
  "openDatabase db =
     (if dbInstance db then ([], Inr db)
      else (case openError db of
              Some e \<Rightarrow> ([ConsoleError (js ''Failed to open IndexedDB:'') None], Inl e)
            | None \<Rightarrow> ([], Inr (db\<lparr>dbInstance := True\<rparr>))))"

text \<open>
  \<open>getSummary\<close> awaits \<open>openDatabase\<close> inside its \<open>try\<close>, and returns the promise of the
  request without awaiting it: a rejection of that promise is not caught by the \<open>catch\<close>
  and becomes the rejection of \<open>getSummary\<close>. An exception thrown by \<open>db.transaction\<close>
  inside the executor rejects that promise as well.
\<close>

definition getSummary ::
  "storage \<Rightarrow> jsstring \<Rightarrow> logLine list \<times> StoredSummary option promise \<times> storage" where
  "getSummary db vid =
     (case openDatabase db of
        (logs, Inl e) \<Rightarrow>
          (logs @ [ConsoleError (js ''Failed to access summary storage:'') None], Resolved None, db)
      | (logs, Inr db') \<Rightarrow>
          (case transactionError db' of
             Some e \<Rightarrow> (logs, Rejected e, db')
           | None \<Rightarrow>
               (case readError db' of
                  Some e \<Rightarrow>
                    (logs @ [ConsoleError (js ''Failed to get summary:'') None], Rejected e, db')
                | None \<Rightarrow> (logs, Resolved (map_of (entries db') vid), db'))))"

definition getAllSummaries ::
  "storage \<Rightarrow> logLine list \<times> StoredSummary list promise \<times> storage" where
  "getAllSummaries db =
     (case openDatabase db of
        (logs, Inl e) \<Rightarrow>
          (logs @ [ConsoleError (js ''Failed to access summary storage:'') None], Resolved [], db)
      | (logs, Inr db') \<Rightarrow>
          (case transactionError db' of
             Some e \<Rightarrow> (logs, Rejected e, db')
           | None \<Rightarrow>
               (case readError db' of
                  Some e \<Rightarrow>
                    (logs @ [ConsoleError (js ''Failed to get all summaries:'') None], Rejected e,
                     db')
                | None \<Rightarrow> (logs, Resolved (map snd (entries db')), db'))))"

text \<open>
  \<open>saveSummary\<close> has no \<open>try\<close>. The error event of a failed request reaches
  \<open>transaction.onerror\<close> after the handler of the request: a failed read is rejected
  there (and the transaction aborted, so nothing is written), a failed write is rejected
  by \<open>putRequest.onerror\<close> first.
\<close>

definition saveSummary ::
  "storage \<Rightarrow> nat \<Rightarrow> jsstring \<Rightarrow> AnalysisResult \<Rightarrow> jsstring \<Rightarrow> jsstring \<Rightarrow> jsstring
    \<Rightarrow> logLine list \<times> unit promise \<times> storage" where
  "saveSummary db now vid res url lang query =
     (case openDatabase db of
        (logs, Inl e) \<Rightarrow> (logs, Rejected e, db)
      | (logs, Inr db') \<Rightarrow>
          (case transactionError db' of
             Some e \<Rightarrow> (logs, Rejected e, db')
           | None \<Rightarrow>
               (case readError db' of
                  Some e \<Rightarrow>
                    (logs @ [ConsoleError (js ''Transaction failed:'') None], Rejected e, db')
                | None \<Rightarrow>
                    (let existing = map_of (entries db') vid;
                         entry = \<lparr>videoId = vid, storedResult = res, videoUrl = url,
                                  language = lang, storedQuery = query,
                                  createdAt = (case existing of None \<Rightarrow> now | Some s \<Rightarrow> createdAt s),
                                  updatedAt = now\<rparr>
                     in case putError db' of
                          Some e \<Rightarrow>
                            (logs @ [ConsoleError (js ''Failed to save summary:'') None,
                                     ConsoleError (js ''Transaction failed:'') None],
                             Rejected e, db')
                        | None \<Rightarrow>
                            (logs, Resolved (),
                             db'\<lparr>entries :=
                                  (vid, entry) # filter (\<lambda>kv. fst kv \<noteq> vid) (entries db')\<rparr>)))))"

section \<open>The orchestrator: handleSummarize (App.tsx)\<close>

datatype AppState = IDLE | LOADING | SUCCESS | ERROR

text \<open>
  What \<open>handleLanguageAwareError\<close> was called for: the missing key, or the error that the
  outer \<open>catch\<close> caught. How the \<open>catch\<close> words the message is not modelled.
\<close>

datatype uiError = ApiKeyMissing | Caught jserror

text \<open>
  The state of the component that \<open>handleSummarize\<close> writes, and the console. Left
  out are the parts of the state that no statement below reads: the retry counter and
  the manual retry timer, the caption flag, the stored transcript and its length, and the
  reset of the credentials that the outer \<open>catch\<close> does on an authentication error.
\<close>

record appState =
  result :: "AnalysisResult option"
  status :: AppState
  error :: "uiError option"
  isImproving :: bool
  cache :: storage
  console :: "logLine list"

text \<open>
  What one run of \<open>handleSummarize\<close> reads and meets: the state it closes over, the
  outcome of the transcript extraction, the replies of the provider (to the \<open>k\<close>-th
  attempt of the question call, to the \<open>k\<close>-th attempt of the analysis call, to the
  validation call), the two uses of \<open>JSON.parse\<close>, which of the two parallel calls
  rejects first when both do, and whether a newer request has cancelled this one when it
  resumes after the generation and after the improvement.
\<close>

record summarizeEnv =
  storedCredentials :: "ApiCredentials option"
  storedApiKey :: jsstring
  extraction :: "jserror + jsstring"
  queryText :: jsstring
  selectedLanguageOption :: LanguageOption
  uiLanguage :: jsstring
  currentVideo :: "(jsstring \<times> jsstring) option"
  modulePrompt :: "prompt option"
  answerReplies :: "nat \<Rightarrow> jsstring promise"
  analysisReplies :: "nat \<Rightarrow> jsstring promise"
  validationReply :: "jsstring promise"
  parseJson :: "jsstring \<Rightarrow> jsval option"
  parseValidation :: "jsstring \<Rightarrow> ValidationResult option"
  answerRejectsFirst :: bool
  cancelledAtResult :: bool
  cancelledAtImprove :: bool
  transcriptShortText :: jsstring
  clock :: nat

text \<open>\<open>Promise.all\<close> of two promises that settle: both values, or the first rejection.\<close>

definition promiseAll2 :: "bool \<Rightarrow> jserror + 'a \<Rightarrow> jserror + 'b \<Rightarrow> jserror + ('a \<times> 'b)" where
  "promiseAll2 firstRejectsFirst a b =
     (case (a, b) of
        (Inr x, Inr y) \<Rightarrow> Inr (x, y)
      | (Inl e, Inr y) \<Rightarrow> Inl e
      | (Inr x, Inl e) \<Rightarrow> Inl e
      | (Inl e1, Inl e2) \<Rightarrow> Inl (if firstRejectsFirst then e1 else e2))"

text \<open>The two operations handed to \<open>withTimeoutAndRetry\<close>, at their \<open>k\<close>-th call.\<close>

definition answerOperation :: "summarizeEnv \<Rightarrow> jsstring \<Rightarrow> jsstring \<Rightarrow> nat \<Rightarrow> UserAnswerResult promise" where
  "answerOperation env transcriptText trimmedQuery k =
     snd (answerUserQuestion (\<lambda>client p. answerReplies env k) (parseJson env) transcriptText
            trimmedQuery (storedCredentials env) (Some (selectedLanguageOption env)))"

definition analysisOperation :: "summarizeEnv \<Rightarrow> jsstring \<Rightarrow> nat \<Rightarrow> AnalysisResult promise" where
  "analysisOperation env transcriptText k =
     snd (snd (analyzeVideo (\<lambda>client p. analysisReplies env k) (parseJson env) (modulePrompt env)
                 transcriptText (storedCredentials env) (Some (selectedLanguageOption env))))"

text \<open>
  The generation: with a question, two wrapped calls under \<open>Promise.all\<close> and the merge
  of their values; without one, the wrapped analysis alone.
\<close>

definition generate :: "summarizeEnv \<Rightarrow> jsstring \<Rightarrow> jserror + AnalysisResult" where
  "generate env transcriptText =
     (let trimmedQuery = trim (queryText env)
      in if trimmedQuery \<noteq> [] then
           (case promiseAll2 (answerRejectsFirst env)
                   (outcome (withTimeoutAndRetry (answerOperation env transcriptText trimmedQuery)
                      SUMMARY_TIMEOUT_MS MAX_RETRY_ATTEMPTS (js ''User question analysis'')))
                   (outcome (withTimeoutAndRetry (analysisOperation env transcriptText)
                      SUMMARY_TIMEOUT_MS MAX_RETRY_ATTEMPTS (js ''Video analysis''))) of
              Inl e \<Rightarrow> Inl e
            | Inr (userAnswerResult, analysisResult) \<Rightarrow>
                Inr \<lparr>customAnswer = Some userAnswerResult,
                     summary = summary analysisResult,
                     keyMoments = keyMoments analysisResult\<rparr>)
         else outcome (withTimeoutAndRetry (analysisOperation env transcriptText)
                SUMMARY_TIMEOUT_MS MAX_RETRY_ATTEMPTS (js ''Video analysis'')))"

text \<open>
  \<open>saveSummary(...).catch(warn)\<close> at the two places that persist a result: it runs only
  with a video identifier, and a rejection ends in a warning.
\<close>

definition persist :: "summarizeEnv \<Rightarrow> AnalysisResult \<Rightarrow> appState \<Rightarrow> appState" where
  "persist env res st =
     (case currentVideo env of
        None \<Rightarrow> st
      | Some (vid, url) \<Rightarrow>
          (case saveSummary (cache st) (clock env) vid res url (uiLanguage env)
                  (trim (queryText env)) of
             (logs, Rejected e, db) \<Rightarrow>
               st\<lparr>cache := db,
                  console := console st @ logs @ [ConsoleWarn (js ''Failed to save summary to cache:'')]\<rparr>
           | (logs, settled, db) \<Rightarrow> st\<lparr>cache := db, console := console st @ logs\<rparr>))"

text \<open>
  The improvement in the background. While \<open>improveResult\<close> is pending the state stays
  as it is; the module variable holds the prompt that the analysis call wrote.
\<close>

definition improve :: "summarizeEnv \<Rightarrow> jsstring \<Rightarrow> AnalysisResult \<Rightarrow> appState \<Rightarrow> appState" where
  "improve env transcriptText initialResult st =
     (case snd (improveResult (\<lambda>client p. validationReply env) (parseValidation env)
                 (fst (analyzeVideo (\<lambda>client p. Pending) (parseJson env) (modulePrompt env)
                         transcriptText (storedCredentials env) (Some (selectedLanguageOption env))))
                 initialResult transcriptText (storedCredentials env)
                 (Some (selectedLanguageOption env))) of
        Pending \<Rightarrow> st
      | Resolved improvedResult \<Rightarrow>
          if cancelledAtImprove env then st\<lparr>isImproving := False\<rparr>
          else (persist env improvedResult (st\<lparr>result := Some improvedResult\<rparr>))\<lparr>isImproving := False\<rparr>
      | Rejected e \<Rightarrow>
          if cancelledAtImprove env then st\<lparr>isImproving := False\<rparr>
          else (persist env initialResult
                  (st\<lparr>console := console st @ [ConsoleWarn (js ''Improvement failed, keeping initial result:'')]\<rparr>))
               \<lparr>isImproving := False\<rparr>)"

text \<open>
  \<open>handleSummarize\<close> up to the point where the preliminary result is shown: the state
  then, and, when the improvement follows, the transcript and the preliminary result it
  is started with. The run ends there when the key is missing, when the extraction or
  the generation fails (the outer \<open>catch\<close>), or when the request was cancelled.
\<close>

definition generationPhase ::
  "summarizeEnv \<Rightarrow> appState \<Rightarrow> appState \<times> (jsstring \<times> AnalysisResult) option" where
  "generationPhase env st =
     (if storedCredentials env = None \<or> storedApiKey env = [] then
        (st\<lparr>status := ERROR, error := Some ApiKeyMissing\<rparr>, None)
      else
        (let st1 = st\<lparr>status := LOADING, error := None, result := None, isImproving := False\<rparr>;
             failed = (\<lambda>e. if cancelledAtResult env then st1
                            else st1\<lparr>status := ERROR, error := Some (Caught e), isImproving := False\<rparr>)
         in case extraction env of
              Inl e \<Rightarrow> (failed e, None)
            | Inr transcriptText \<Rightarrow>
                if length transcriptText < 50 then
                  (failed (newError (transcriptShortText env)), None)
                else
                  (case generate env transcriptText of
                     Inl e \<Rightarrow> (failed e, None)
                   | Inr initialResult \<Rightarrow>
                       if cancelledAtResult env then (st1, None)
                       else (st1\<lparr>result := Some initialResult, status := SUCCESS,
                                 isImproving := True\<rparr>,
                             Some (transcriptText, initialResult)))))"

definition handleSummarize :: "summarizeEnv \<Rightarrow> appState \<Rightarrow> appState" where
  "handleSummarize env st =
     (case generationPhase env st of
        (st', None) \<Rightarrow> st'
      | (st', Some (transcriptText, initialResult)) \<Rightarrow>
          improve env transcriptText initialResult st')"

text \<open>The two wrapped calls that a request with a question makes.\<close>

definition answerRun :: "summarizeEnv \<Rightarrow> jsstring \<Rightarrow> UserAnswerResult retryRun" where
  "answerRun env transcriptText =
     withTimeoutAndRetry (answerOperation env transcriptText (trim (queryText env)))
       SUMMARY_TIMEOUT_MS MAX_RETRY_ATTEMPTS (js ''User question analysis'')"

definition analysisRun :: "summarizeEnv \<Rightarrow> jsstring \<Rightarrow> AnalysisResult retryRun" where
  "analysisRun env transcriptText =
     withTimeoutAndRetry (analysisOperation env transcriptText)
       SUMMARY_TIMEOUT_MS MAX_RETRY_ATTEMPTS (js ''Video analysis'')"

section \<open>Predicates and sample data used in the statements\<close>

text \<open>
  The invariant of a highlight: both fields are strings that are not empty once trimmed.
\<close>

definition validHighlight :: "Highlight \<Rightarrow> bool" where
  "validHighlight h =
     (case (timestamp h, description h) of
        (JStr t, JStr d) \<Rightarrow> trim t \<noteq> [] \<and> trim d \<noteq> []
      | _ \<Rightarrow> False)"

text \<open>A highlight with each field trimmed, or emptied when it is not a string.\<close>

definition trimmedHighlight :: "Highlight \<Rightarrow> Highlight" where
  "trimmedHighlight h =
     \<lparr>timestamp = JStr (trimmedString (Some (timestamp h))),
      description = JStr (trimmedString (Some (description h)))\<rparr>"

definition sampleResult :: AnalysisResult where
  "sampleResult =
     \<lparr>customAnswer = None, summary = JStr (js ''A talk''),
      keyMoments = [\<lparr>timestamp = JStr (js ''01:00''), description = JStr (js ''Intro'')\<rparr>,
                    \<lparr>timestamp = JStr (js ''02:00''), description = JStr (js ''Demo'')\<rparr>]\<rparr>"

definition sampleValidation :: ValidationResult where
  "sampleValidation =
     \<lparr>isValid = False,
      issues = [\<lparr>field = FKeyMoments, index = Some 1, issueType = IncorrectTimestamp,
                 issueDescription = js ''wrong time'',
                 correction = \<lparr>action = Replace,
                               corrValue = Some (JObj [(js ''timestamp'', JStr (js ''02:10''))])\<rparr>\<rparr>]\<rparr>"

definition sampleClient :: llmClient where
  "sampleClient =
     \<lparr>clientProvider = Google, clientApiKey = js ''k'', clientModel = js ''gemini-2.5-flash'',
      clientTemperature = 1 / 5, clientMaxTokens = Some 2048, clientMaxRetries = 3\<rparr>"

text \<open>
  The order in which the comparator of \<open>applyCorrections\<close> leaves two issues: by field
  name; within a field every action other than \<open>remove\<close> before every \<open>remove\<close>;
  within a field and among removals, or among the other actions, by descending index
  (a missing index counts as 0).
\<close>

definition comesBefore :: "ValidationIssue \<Rightarrow> ValidationIssue \<Rightarrow> bool" where
  "comesBefore a b =
     (localeCompare (fieldName (field a)) (fieldName (field b)) < 0 \<or>
      (field a = field b \<and>
        ((\<not> isRemove a \<and> isRemove b) \<or> (isRemove a = isRemove b \<and> indexOr0 b \<le> indexOr0 a))))"

definition fieldOrder :: "ValidationField \<Rightarrow> nat" where
  "fieldOrder f = (case f of FCustomAnswer \<Rightarrow> 0 | FKeyMoments \<Rightarrow> 1 | FSummary \<Rightarrow> 2)"

text \<open>
  The order as the specification words it: among the issues on the key moments, the
  removals stand before every replacement and addition.
\<close>

definition removesBeforeOthers :: "ValidationIssue list \<Rightarrow> bool" where
  "removesBeforeOthers ys =
     list_all (\<lambda>a. \<not> isRemove a) (dropWhile isRemove (filter (\<lambda>a. field a = FKeyMoments) ys))"

text \<open>The order the code has: among the issues on a field, the removals stand last.\<close>

definition removesAfterOthers :: "ValidationField \<Rightarrow> ValidationIssue list \<Rightarrow> bool" where
  "removesAfterOthers f ys =
     list_all isRemove (dropWhile (\<lambda>a. \<not> isRemove a) (filter (\<lambda>a. field a = f) ys))"

definition descendingIndex :: "ValidationIssue list \<Rightarrow> bool" where
  "descendingIndex ys = sorted_wrt (\<lambda>a b. indexOr0 b \<le> indexOr0 a) ys"

definition removeFirst :: ValidationIssue where
  "removeFirst =
     \<lparr>field = FKeyMoments, index = Some 0, issueType = Hallucination,
      issueDescription = js ''not in the transcript'',
      correction = \<lparr>action = Remove, corrValue = None\<rparr>\<rparr>"

definition replaceSecond :: ValidationIssue where
  "replaceSecond =
     \<lparr>field = FKeyMoments, index = Some 1, issueType = InaccurateDescription,
      issueDescription = js ''imprecise'',
      correction = \<lparr>action = Replace,
                    corrValue = Some (JObj [(js ''description'', JStr (js ''Setup''))])\<rparr>\<rparr>"

definition removeThird :: ValidationIssue where
  "removeThird =
     \<lparr>field = FKeyMoments, index = Some 2, issueType = Hallucination,
      issueDescription = js ''not in the transcript'',
      correction = \<lparr>action = Remove, corrValue = None\<rparr>\<rparr>"

definition removeSixth :: ValidationIssue where
  "removeSixth =
     \<lparr>field = FKeyMoments, index = Some 5, issueType = Hallucination,
      issueDescription = js ''not in the transcript'',
      correction = \<lparr>action = Remove, corrValue = None\<rparr>\<rparr>"

definition sampleThree :: AnalysisResult where
  "sampleThree =
     \<lparr>customAnswer = None, summary = JStr (js ''A talk''),
      keyMoments = [\<lparr>timestamp = JStr (js ''01:00''), description = JStr (js ''Intro'')\<rparr>,
                    \<lparr>timestamp = JStr (js ''02:00''), description = JStr (js ''Demo'')\<rparr>,
                    \<lparr>timestamp = JStr (js ''03:00''), description = JStr (js ''Questions'')\<rparr>]\<rparr>"

definition sampleHeap :: heap where
  "sampleHeap = [ArrayObject (keyMoments sampleResult),
                 ResultObject (customAnswer sampleResult) (summary sampleResult) 0]"

text \<open>The store after the copy: the cells of the caller, then the array and the object copied.\<close>

definition copyCells :: "heap \<Rightarrow> AnalysisResult \<Rightarrow> heap" where
  "copyCells h r =
     h @ [ArrayObject (keyMoments r), ResultObject (customAnswer r) (summary r) (length h)]"

text \<open>Sample operations for the retry wrapper and sample credentials.\<close>

definition alwaysPending :: "nat \<Rightarrow> AnalysisResult promise" where
  "alwaysPending k = Pending"

definition invalidKeyError :: jserror where
  "invalidKeyError = newError (js ''Invalid API key'')"

definition failsThenRejects :: "nat \<Rightarrow> AnalysisResult promise" where
  "failsThenRejects k =
     (if k = 1 then Rejected (newError (js ''Network request failed''))
      else Rejected invalidKeyError)"

definition notConfigured :: jserror where
  "notConfigured = newError (js ''API Key not configured'')"

definition blankCredentials :: ApiCredentials where
  "blankCredentials = \<lparr>provider = Openai, key = [32, 9, 32]\<rparr>"

definition english :: LanguageOption where
  "english = \<lparr>code = js ''en'', name = js ''English'', flag = js ''US''\<rparr>"

text \<open>
  The preliminary result of a request with a question, the condition under which
  \<open>handleSummarize\<close> gets as far as the generation, and the failure of the validation
  call: \<open>invokeModelForJson\<close> rejects (the provider rejects, answers nothing, or answers
  what cannot be parsed).
\<close>

definition mergedResult :: "UserAnswerResult \<Rightarrow> AnalysisResult \<Rightarrow> AnalysisResult" where
  "mergedResult userAnswerResult analysisResult =
     \<lparr>customAnswer = Some userAnswerResult, summary = summary analysisResult,
      keyMoments = keyMoments analysisResult\<rparr>"

definition reachesGeneration :: "summarizeEnv \<Rightarrow> jsstring \<Rightarrow> bool" where
  "reachesGeneration env transcriptText =
     (storedCredentials env \<noteq> None \<and> storedApiKey env \<noteq> [] \<and>
      extraction env = Inr transcriptText \<and> 50 \<le> length transcriptText)"

definition validationCallFails :: "(jsstring \<Rightarrow> ValidationResult option) \<Rightarrow> jsstring promise \<Rightarrow> bool" where
  "validationCallFails parse reply =
     (case invokeModelForJson parse reply (js ''validateResult'') of
        Rejected e \<Rightarrow> True
      | _ \<Rightarrow> False)"

text \<open>Sample runs of the orchestrator.\<close>

definition sampleTranscript :: jsstring where
  "sampleTranscript = js ''[00:00] Hello world. [01:30] Goodbye and thanks for watching.''"

definition sampleAnalysisText :: jsstring where
  \<open>sampleAnalysisText = js ''{"summary":"S","keyMoments":[{"timestamp":" 00:00","description":"Hello"},{"timestamp":"01:30"}]}''\<close>

definition sampleAnswerText :: jsstring where
  \<open>sampleAnswerText = js ''{"text":" A greeting. ","relatedSegments":["00:00 - 00:10",""]}''\<close>

definition sampleAnalysis :: AnalysisResult where
  "sampleAnalysis =
     \<lparr>customAnswer = None, summary = JStr (js ''S''),
      keyMoments = [\<lparr>timestamp = JStr (js ''00:00''), description = JStr (js ''Hello'')\<rparr>]\<rparr>"

definition sampleAnswer :: UserAnswerResult where
  "sampleAnswer =
     \<lparr>answerText = JStr (js ''A greeting.''), relatedSegments = JArr [JStr (js ''00:00 - 00:10'')]\<rparr>"

definition emptyStorage :: storage where
  "emptyStorage =
     \<lparr>dbInstance = False, openError = None, transactionError = None, readError = None,
      putError = None, entries = []\<rparr>"

definition idleState :: appState where
  "idleState =
     \<lparr>result = None, status = IDLE, error = None, isImproving = False, cache = emptyStorage,
      console = []\<rparr>"

definition plainEnv :: summarizeEnv where
  "plainEnv =
     \<lparr>storedCredentials = Some \<lparr>provider = Google, key = js ''key-123''\<rparr>,
      storedApiKey = js ''key-123'',
      extraction = Inr sampleTranscript,
      queryText = js ''  '',
      selectedLanguageOption = english,
      uiLanguage = js ''en'',
      currentVideo = Some (js ''abc'', js ''https://www.youtube.com/watch?v=abc''),
      modulePrompt = None,
      answerReplies = (\<lambda>k. Rejected invalidKeyError),
      analysisReplies = (\<lambda>k. Resolved sampleAnalysisText),
      validationReply = Rejected (newError (js ''Network request failed'')),
      parseJson = jsonParse,
      parseValidation = (\<lambda>s. None),
      answerRejectsFirst = True,
      cancelledAtResult = False,
      cancelledAtImprove = False,
      transcriptShortText = js ''Transcript too short'',
      clock = 1000\<rparr>"

definition questionEnv :: summarizeEnv where
  "questionEnv = plainEnv\<lparr>queryText := js '' What is shown? ''\<rparr>"

definition answeredEnv :: summarizeEnv where
  "answeredEnv = questionEnv\<lparr>answerReplies := (\<lambda>k. Resolved sampleAnswerText)\<rparr>"

text \<open>
  The parts of \<open>extractJsonFromText\<close> by name: the group of the first regular
  expression that matches, and the text from the first opening brace to the last closing
  brace when the latter comes after the former. A label is the word \<open>json\<close> in any case.
\<close>

definition isJsonLabel :: "jsstring \<Rightarrow> bool" where
  "isJsonLabel w =
     (case w of
        [a, b, c, d] \<Rightarrow> litCI 106 a \<and> litCI 115 b \<and> litCI 111 c \<and> litCI 110 d
      | _ \<Rightarrow> False)"

definition fencedContents :: "jsstring \<Rightarrow> jsstring option" where
  "fencedContents raw =
     (case matchFenced fenceJson raw of Some g \<Rightarrow> Some g | None \<Rightarrow> matchFenced fence raw)"

definition braceSubstring :: "jsstring \<Rightarrow> jsstring option" where
  "braceSubstring raw =
     (case (indexOf 123 raw, lastIndexOf 125 raw) of
        (Some firstBrace, Some lastBrace) \<Rightarrow>
          if lastBrace > firstBrace then Some (slice firstBrace (lastBrace + 1) raw) else None
      | _ \<Rightarrow> None)"

text \<open>
  The parser as the specification words it, to compare with \<open>parseJsonContent\<close>: the
  direct parse; on failure the contents of a fenced block; on failure of that the text
  between the braces; \<open>None\<close> stands for the parse error raised when all three fail.
\<close>

definition layeredParse :: "(jsstring \<Rightarrow> 'a option) \<Rightarrow> jsstring \<Rightarrow> 'a option" where
  "layeredParse parse raw =
     (case parse raw of
        Some v \<Rightarrow> Some v
      | None \<Rightarrow>
          (case (case fencedContents raw of None \<Rightarrow> None | Some g \<Rightarrow> parse (trim g)) of
             Some v \<Rightarrow> Some v
           | None \<Rightarrow> (case braceSubstring raw of None \<Rightarrow> None | Some b \<Rightarrow> parse b)))"

text \<open>Sample responses, among them the three examples of the specification.\<close>

definition fencedThenBraces :: jsstring where
  "fencedThenBraces = js ''```x``` {}''"

definition fencedExample :: jsstring where
  \<open>fencedExample =
     js ''Here is the result:'' @ [10] @ js ''```json'' @ [10] @
     js ''{"summary":"x","keyMoments":[]}'' @ [10] @ js ''```''\<close>

definition bracesExample :: jsstring where
  \<open>bracesExample = js ''blah {"a":1} blah''\<close>

definition proseExample :: jsstring where
  "proseExample = js ''not json at all''"

definition examplePre :: jsstring where
  "examplePre = js ''Here is the result:'' @ [10]"

definition exampleBody :: jsstring where
  \<open>exampleBody = [10] @ js ''{"summary":"x","keyMoments":[]}'' @ [10]\<close>

definition exampleObject :: jsval where
  "exampleObject = JObj [(js ''summary'', JStr (js ''x'')), (js ''keyMoments'', JArr [])]"

text \<open>
  Storage that cannot be opened: the module holds no open database and
  \<open>indexedDB.open\<close> fails. The two lines that a read logs in that case.
\<close>

definition storageError :: jserror where
  "storageError = Thrown (Some (js ''InvalidStateError'')) (Some (js ''The database is not available''))"

definition unavailableStorage :: storage where
  "unavailableStorage = emptyStorage\<lparr>openError := Some storageError\<rparr>"

definition unavailable :: "storage \<Rightarrow> jserror \<Rightarrow> bool" where
  "unavailable db e = (\<not> dbInstance db \<and> openError db = Some e)"

definition accessFailureLog :: "logLine list" where
  "accessFailureLog =
     [ConsoleError (js ''Failed to open IndexedDB:'') None,
      ConsoleError (js ''Failed to access summary storage:'') None]"

section \<open>Properties of the string operations\<close>

lemma trimStart_fixed: "s = [] \<or> \<not> isWhiteSpace (hd s) \<Longrightarrow> trimStart s = s"
  by (cases s) (auto simp: trimStart_def)

lemma trim_prefix: "trim s = take (length (trim s)) (trimStart s)"
proof -
  let ?t = "trimStart s"
  let ?n = "length (takeWhile isWhiteSpace (rev ?t))"
  have "trim s = rev (dropWhile isWhiteSpace (rev ?t))"
    by (simp add: trim_def trimStart_def)
  also have "\<dots> = rev (drop ?n (rev ?t))"
    by (simp only: dropWhile_eq_drop)
  also have "\<dots> = take (length ?t - ?n) ?t"
    by (simp add: rev_drop)
  finally have e: "trim s = take (length ?t - ?n) ?t" .
  then have "length (trim s) = length ?t - ?n" by simp
  with e show ?thesis by simp
qed

lemma trim_head: "trim s \<noteq> [] \<Longrightarrow> \<not> isWhiteSpace (hd (trim s))"
proof -
  assume ne: "trim s \<noteq> []"
  have p: "trim s = take (length (trim s)) (trimStart s)" by (rule trim_prefix)
  from ne p have tne: "trimStart s \<noteq> []" by auto
  from ne have "0 < length (trim s)" by simp
  with p have "hd (trim s) = hd (trimStart s)" by (metis hd_take)
  moreover from tne have "\<not> isWhiteSpace (hd (trimStart s))"
    unfolding trimStart_def by (rule hd_dropWhile)
  ultimately show ?thesis by simp
qed

lemma trim_idem: "trim (trim s) = trim s"
proof -
  have a: "trimStart (trim s) = trim s"
    by (rule trimStart_fixed) (use trim_head in blast)
  have "trimStart (rev (trim s)) = rev (trim s)"
    by (simp add: trim_def trimStart_def)
  with a show ?thesis by (simp add: trim_def)
qed

lemma js_simps:
  "js [] = []"
  "js (c # cs) = of_char c # js cs"
  by (simp_all add: js_def)

lemma trim_eval:
  "trim (c # cs) = rev (dropWhile isWhiteSpace (rev (dropWhile isWhiteSpace (c # cs))))"
  by (simp add: trim_def trimStart_def)

section \<open>The invariant of the key moments\<close>

lemma trim_Nil: "trim [] = []"
  by (simp add: trim_def trimStart_def)

lemma trimmedString_idem: "trim (trimmedString v) = trimmedString v"
  by (simp add: trimmedString_def trim_idem trim_Nil split: option.splits jsval.splits)

lemma sanitizeMoment_valid:
  "jsLength (timestamp (sanitizeMoment m)) > 0 \<Longrightarrow> jsLength (description (sanitizeMoment m)) > 0
   \<Longrightarrow> validHighlight (sanitizeMoment m)"
  by (simp add: sanitizeMoment_def validHighlight_def jsLength_def trimmedString_idem)

lemma sanitizeKeyMoments_valid: "list_all validHighlight (sanitizeKeyMoments moments)"
  by (auto simp: sanitizeKeyMoments_def list_all_iff sanitizeMoment_valid
      split: option.splits jsval.splits)

lemma key_names_differ: "js ''timestamp'' \<noteq> js ''description''"
  by (simp add: js_def)

lemma sanitizeMoment_highlightJs:
  "sanitizeMoment (highlightJs h) =
     \<lparr>timestamp = JStr (trimmedString (Some (timestamp h))),
      description = JStr (trimmedString (Some (description h)))\<rparr>"
  using key_names_differ by (simp add: sanitizeMoment_def highlightJs_def)

lemma sanitizeKeyMoments_momentsJs:
  "sanitizeKeyMoments (momentsJs hs) =
     filter (\<lambda>m. jsLength (timestamp m) > 0 \<and> jsLength (description m) > 0)
       (map (\<lambda>h. \<lparr>timestamp = JStr (trimmedString (Some (timestamp h))),
                   description = JStr (trimmedString (Some (description h)))\<rparr>) hs)"
  by (simp add: sanitizeKeyMoments_def momentsJs_def sanitizeMoment_highlightJs comp_def)

lemma sanitize_fixed:
  assumes "\<forall>h \<in> set hs. \<exists>m. h = sanitizeMoment m \<and> jsLength (timestamp h) > 0 \<and> jsLength (description h) > 0"
  shows "sanitizeKeyMoments (momentsJs hs) = hs"
  using assms
proof (induction hs)
  case Nil
  then show ?case by (simp add: sanitizeKeyMoments_momentsJs)
next
  case (Cons h hs)
  then obtain m where h: "h = sanitizeMoment m" "jsLength (timestamp h) > 0" "jsLength (description h) > 0"
    by auto
  have same: "\<lparr>timestamp = JStr (trimmedString (Some (timestamp h))),
               description = JStr (trimmedString (Some (description h)))\<rparr> = h"
    using h(1) by (simp add: sanitizeMoment_def trimmedString_idem trimmedString_def[of "Some (JStr _)"])
  from Cons have "sanitizeKeyMoments (momentsJs hs) = hs" by simp
  with same h show ?case by (simp add: sanitizeKeyMoments_momentsJs)
qed

lemma sanitizeKeyMoments_idem:
  "sanitizeKeyMoments (momentsJs (sanitizeKeyMoments moments)) = sanitizeKeyMoments moments"
  by (rule sanitize_fixed) (auto simp: sanitizeKeyMoments_def split: option.splits jsval.splits)

lemma validHighlight_trimmed:
  "validHighlight (trimmedHighlight h) =
     (jsLength (timestamp (trimmedHighlight h)) > 0 \<and> jsLength (description (trimmedHighlight h)) > 0)"
  by (simp add: validHighlight_def trimmedHighlight_def jsLength_def trimmedString_idem)

lemma sanitizeKeyMoments_filter:
  "sanitizeKeyMoments (momentsJs hs) = filter validHighlight (map trimmedHighlight hs)"
proof (induction hs)
  case Nil
  show ?case by (simp add: sanitizeKeyMoments_momentsJs)
next
  case (Cons h hs)
  have step: "sanitizeKeyMoments (momentsJs (h # hs)) =
        (if jsLength (timestamp (trimmedHighlight h)) > 0 \<and> jsLength (description (trimmedHighlight h)) > 0
         then [trimmedHighlight h] else []) @ sanitizeKeyMoments (momentsJs hs)"
    by (simp add: sanitizeKeyMoments_momentsJs trimmedHighlight_def)
  show ?case unfolding step Cons.IH by (simp add: validHighlight_trimmed)
qed

lemma validateAndFix_shape:
  assumes "validateAndFixResult llm parse client r tr orig lname lcode = (effs, Resolved out)"
  shows "\<exists>c. (c = r \<or> (\<exists>is. c = applyCorrections r is)) \<and>
             out = c\<lparr>keyMoments := sanitizeKeyMoments (momentsJs (keyMoments c))\<rparr>"
  using assms
  by (auto simp: validateAndFixResult_def Let_def split: prod.splits promise.splits if_splits)

lemma improve_shape:
  assumes "improveResult llm parse lp r tr cr lang = (effs, Resolved out)"
  shows "\<exists>c. (c = r \<or> (\<exists>is. c = applyCorrections r is)) \<and>
             out = c\<lparr>keyMoments := sanitizeKeyMoments (momentsJs (keyMoments c))\<rparr>"
  using assms
  by (auto simp: improveResult_def Let_def split: prod.splits sum.splits dest!: validateAndFix_shape)

lemma sample_run:
  "snd (validateAndFixResult (\<lambda>c p. Resolved (js ''{}'')) (\<lambda>s. Some sampleValidation) sampleClient
          sampleResult (js ''t'') RespondWithOK (js ''English'') (js ''en''))
   = Resolved (sampleResult\<lparr>keyMoments := [\<lparr>timestamp = JStr (js ''01:00''), description = JStr (js ''Intro'')\<rparr>]\<rparr>)"
  by (simp add: validateAndFixResult_def validateResult_def invokeModelForJson_def
      parseJsonContent_def sampleValidation_def sampleResult_def applyCorrections_def
      sortIssues_def applyIssue_def applyKeyMoments_def validIndex_def truthyU_def jsOr_def
      orDefault_def
      timestampAt_def sanitizeKeyMoments_momentsJs trimmedString_def jsLength_def
      js_simps trim_eval trim_Nil isWhiteSpace_def Let_def)

text \<open>
  Claim C1. Every result that \<open>validateAndFixResult\<close>, and so \<open>improveResult\<close>, resolves
  with has only highlights whose timestamp and description are strings that are not empty
  after trimming, whatever the validation answered and whatever issues were applied: the
  key moments of the result are those of the result under correction, each field
  trimmed, with every entry that has an empty or missing field dropped.
\<close>

theorem keyMoments_invariant:
  "(validateAndFixResult llm parse client r tr orig lname lcode = (effs, Resolved out) \<longrightarrow>
      list_all validHighlight (keyMoments out) \<and>
      (\<exists>c. (c = r \<or> (\<exists>is. c = applyCorrections r is)) \<and>
           keyMoments out = filter validHighlight (map trimmedHighlight (keyMoments c)))) \<and>
   (improveResult llm parse' lp r' tr' cr lang = (effs', Resolved out') \<longrightarrow>
      list_all validHighlight (keyMoments out') \<and>
      (\<exists>c. (c = r' \<or> (\<exists>is. c = applyCorrections r' is)) \<and>
           keyMoments out' = filter validHighlight (map trimmedHighlight (keyMoments c))))"
proof (intro conjI impI)
  assume a: "validateAndFixResult llm parse client r tr orig lname lcode = (effs, Resolved out)"
  from validateAndFix_shape[OF a] obtain c where
    c: "c = r \<or> (\<exists>is. c = applyCorrections r is)"
       "out = c\<lparr>keyMoments := sanitizeKeyMoments (momentsJs (keyMoments c))\<rparr>" by blast
  from c(2) show "list_all validHighlight (keyMoments out)"
    by (simp add: sanitizeKeyMoments_valid)
  from c show "\<exists>c. (c = r \<or> (\<exists>is. c = applyCorrections r is)) \<and>
           keyMoments out = filter validHighlight (map trimmedHighlight (keyMoments c))"
    by (auto simp: sanitizeKeyMoments_filter)
next
  assume a: "improveResult llm parse' lp r' tr' cr lang = (effs', Resolved out')"
  from improve_shape[OF a] obtain c where
    c: "c = r' \<or> (\<exists>is. c = applyCorrections r' is)"
       "out' = c\<lparr>keyMoments := sanitizeKeyMoments (momentsJs (keyMoments c))\<rparr>" by blast
  from c(2) show "list_all validHighlight (keyMoments out')"
    by (simp add: sanitizeKeyMoments_valid)
  from c show "\<exists>c. (c = r' \<or> (\<exists>is. c = applyCorrections r' is)) \<and>
           keyMoments out' = filter validHighlight (map trimmedHighlight (keyMoments c))"
    by (auto simp: sanitizeKeyMoments_filter)
qed

theorem keyMoments_invariant_witness:
  "snd (validateAndFixResult (\<lambda>c p. Resolved (js ''{}'')) (\<lambda>s. Some sampleValidation) sampleClient
          sampleResult (js ''t'') RespondWithOK (js ''English'') (js ''en''))
     = Resolved (sampleResult\<lparr>keyMoments := [\<lparr>timestamp = JStr (js ''01:00''), description = JStr (js ''Intro'')\<rparr>]\<rparr>)
   \<and> list_all validHighlight [\<lparr>timestamp = JStr (js ''01:00''), description = JStr (js ''Intro'')\<rparr>]"
proof -
  let ?run = "validateAndFixResult (\<lambda>c p. Resolved (js ''{}'')) (\<lambda>s. Some sampleValidation)
                sampleClient sampleResult (js ''t'') RespondWithOK (js ''English'') (js ''en'')"
  let ?out = "sampleResult\<lparr>keyMoments := [\<lparr>timestamp = JStr (js ''01:00''), description = JStr (js ''Intro'')\<rparr>]\<rparr>"
  have "?run = (fst ?run, Resolved ?out)"
    using sample_run by (metis prod.collapse)
  with keyMoments_invariant[of "\<lambda>c p. Resolved (js ''{}'')" "\<lambda>s. Some sampleValidation" sampleClient
        sampleResult "js ''t''" RespondWithOK "js ''English''" "js ''en''" "fst ?run" ?out]
  have "list_all validHighlight (keyMoments ?out)" by blast
  with sample_run show ?thesis by simp
qed

section \<open>The order in which corrections are applied\<close>

lemma localeCompare_fields:
  "localeCompare (fieldName f) (fieldName g) \<le> 0 \<longleftrightarrow> fieldOrder f \<le> fieldOrder g"
  by (cases f; cases g) (simp_all add: fieldName_def fieldOrder_def js_simps)

lemma localeCompare_fields_strict:
  "f \<noteq> g \<Longrightarrow> localeCompare (fieldName f) (fieldName g) \<le> 0 \<longleftrightarrow> fieldOrder f < fieldOrder g"
  by (cases f; cases g) (simp_all add: fieldName_def fieldOrder_def js_simps)

lemma localeCompare_fields_less:
  "localeCompare (fieldName f) (fieldName g) < 0 \<longleftrightarrow> fieldOrder f < fieldOrder g"
  by (cases f; cases g) (simp_all add: fieldName_def fieldOrder_def js_simps)

lemma comesBefore_order:
  "comesBefore a b \<longleftrightarrow>
     (fieldOrder (field a) < fieldOrder (field b) \<or>
      (field a = field b \<and>
        ((\<not> isRemove a \<and> isRemove b) \<or> (isRemove a = isRemove b \<and> indexOr0 b \<le> indexOr0 a))))"
  by (simp add: comesBefore_def localeCompare_fields_less)

lemma compareIssues_le: "compareIssues a b \<le> 0 \<longleftrightarrow> comesBefore a b"
  by (cases "field a"; cases "field b")
     (auto simp: compareIssues_def comesBefore_def fieldName_def js_simps)

lemma comesBefore_total: "comesBefore a b \<or> comesBefore b a"
  by (cases "field a"; cases "field b") (auto simp: comesBefore_order fieldOrder_def)

lemma comesBefore_trans: "comesBefore a b \<Longrightarrow> comesBefore b c \<Longrightarrow> comesBefore a c"
  by (cases "field a"; cases "field b"; cases "field c") (auto simp: comesBefore_order fieldOrder_def)

lemma set_insertIssue: "set (insertIssue x ys) = insert x (set ys)"
  by (induction ys) auto

lemma mset_insertIssue: "mset (insertIssue x ys) = add_mset x (mset ys)"
  by (induction ys) auto

lemma sorted_insertIssue:
  "sorted_wrt comesBefore ys \<Longrightarrow> sorted_wrt comesBefore (insertIssue x ys)"
proof (induction ys)
  case Nil
  show ?case by simp
next
  case (Cons y ys)
  show ?case
  proof (cases "compareIssues x y \<le> 0")
    case True
    then have xy: "comesBefore x y" by (simp add: compareIssues_le)
    with Cons.prems have "\<forall>z \<in> set ys. comesBefore x z"
      by (auto intro: comesBefore_trans)
    with xy Cons.prems True show ?thesis by simp
  next
    case False
    then have "comesBefore y x" using comesBefore_total[of x y] by (simp add: compareIssues_le)
    with Cons False show ?thesis by (auto simp: set_insertIssue)
  qed
qed

lemma mset_sortIssues: "mset (sortIssues xs) = mset xs"
  by (induction xs) (simp_all add: sortIssues_def mset_insertIssue)

lemma sorted_sortIssues: "sorted_wrt comesBefore (sortIssues xs)"
  by (induction xs) (simp_all add: sortIssues_def sorted_insertIssue)

lemma sorted_wrt_dropWhile: "sorted_wrt R ys \<Longrightarrow> sorted_wrt R (dropWhile P ys)"
  by (induction ys) auto

lemma removes_last:
  assumes "sorted_wrt comesBefore ys"
  shows "removesAfterOthers f ys"
proof -
  let ?zs = "filter (\<lambda>a. field a = f) ys"
  let ?ds = "dropWhile (\<lambda>a. \<not> isRemove a) ?zs"
  have s: "sorted_wrt comesBefore ?ds"
    using assms by (simp add: sorted_wrt_filter sorted_wrt_dropWhile)
  have fld: "field z = f" if "z \<in> set ?ds" for z
  proof -
    from that have "z \<in> set ?zs" by (rule set_dropWhileD)
    then show ?thesis by simp
  qed
  show ?thesis
  proof (cases ?ds)
    case Nil
    show ?thesis unfolding removesAfterOthers_def Nil by simp
  next
    case (Cons h rest)
    then have "?ds \<noteq> []" by simp
    then have "\<not> \<not> isRemove (hd ?ds)" by (rule hd_dropWhile)
    with Cons have hr: "isRemove h" by simp
    have fh: "field h = f" using fld[of h] Cons by simp
    have "isRemove z" if "z \<in> set rest" for z
    proof -
      from s Cons that have "comesBefore h z" by simp
      moreover have "field z = f" using fld[of z] Cons that by simp
      ultimately show ?thesis using hr fh by (simp add: comesBefore_order)
    qed
    then have "list_all isRemove (h # rest)" using hr by (simp add: list_all_iff)
    then show ?thesis unfolding removesAfterOthers_def Cons .
  qed
qed

lemma descending_in_group:
  assumes "sorted_wrt comesBefore ys"
  shows "descendingIndex (filter (\<lambda>a. field a = f \<and> isRemove a = rm) ys)"
proof -
  let ?g = "filter (\<lambda>a. field a = f \<and> isRemove a = rm) ys"
  have s: "sorted_wrt comesBefore ?g"
    using assms by (simp add: sorted_wrt_filter)
  show ?thesis
    unfolding descendingIndex_def
  proof (rule sorted_wrt_mono_rel[OF _ s])
    fix x y
    assume "x \<in> set ?g" "y \<in> set ?g" "comesBefore x y"
    then show "indexOr0 y \<le> indexOr0 x" by (auto simp: comesBefore_order)
  qed
qed

lemma sort_sample: "sortIssues [removeFirst, replaceSecond] = [replaceSecond, removeFirst]"
  by (simp add: sortIssues_def compareIssues_def removeFirst_def replaceSecond_def isRemove_def)

text \<open>
  Claim C2, as amended. \<open>applyCorrections\<close> applies the issues in the order of the
  sorted copy, which holds every issue once and is ordered by field name
  (\<open>customAnswer\<close>, \<open>keyMoments\<close>, \<open>summary\<close>); within a field the \<open>remove\<close> actions
  come after every \<open>replace\<close> and \<open>add\<close>, not before; and within a field the removals,
  like the other actions, are in descending index order.
\<close>

theorem processing_order:
  "applyCorrections r xs = foldl applyIssue r (sortIssues xs) \<and>
   mset (sortIssues xs) = mset xs \<and>
   sorted_wrt comesBefore (sortIssues xs) \<and>
   removesAfterOthers f (sortIssues xs) \<and>
   descendingIndex (filter (\<lambda>a. field a = f \<and> isRemove a = rm) (sortIssues xs))"
  by (simp add: applyCorrections_def mset_sortIssues sorted_sortIssues removes_last
      descending_in_group)

theorem processing_order_witness:
  "sortIssues [removeFirst, replaceSecond] = [replaceSecond, removeFirst] \<and>
   sorted_wrt comesBefore [replaceSecond, removeFirst] \<and>
   removesAfterOthers FKeyMoments [replaceSecond, removeFirst]"
  using processing_order[of sampleResult "[removeFirst, replaceSecond]" FKeyMoments True]
  by (simp only: sort_sample)

text \<open>
  Claim C2, as stated, fails: given a removal at index 0 and a replacement at index 1 of
  the key moments, the replacement is processed first.
\<close>

theorem removes_first_counterexample:
  "sortIssues [removeFirst, replaceSecond] = [replaceSecond, removeFirst] \<and>
   \<not> removesBeforeOthers (sortIssues [removeFirst, replaceSecond])"
  by (simp add: sort_sample removesBeforeOthers_def)
     (simp add: removeFirst_def replaceSecond_def isRemove_def)

section \<open>Removals and indices\<close>

text \<open>
  Claim C9. Removing index 0 and index 2 from a result with exactly three key moments
  leaves the original element at index 1 and nothing else, in whichever order the two
  issues are listed; the rest of the result is as it was.
\<close>

theorem remove_first_and_last:
  assumes "field i0 = FKeyMoments" "index i0 = Some 0" "action (correction i0) = Remove"
    and "field i2 = FKeyMoments" "index i2 = Some 2" "action (correction i2) = Remove"
    and "keyMoments r = [a, b, c]"
  shows "applyCorrections r [i0, i2] = r\<lparr>keyMoments := [b]\<rparr> \<and>
         applyCorrections r [i2, i0] = r\<lparr>keyMoments := [b]\<rparr>"
  using assms
  by (simp add: applyCorrections_def sortIssues_def compareIssues_def isRemove_def indexOr0_def
      applyIssue_def applyKeyMoments_def validIndex_def splice1_def)

theorem remove_first_and_last_witness:
  "applyCorrections sampleThree [removeFirst, removeThird] =
     sampleThree\<lparr>keyMoments := [\<lparr>timestamp = JStr (js ''02:00''), description = JStr (js ''Demo'')\<rparr>]\<rparr>"
  using remove_first_and_last[of removeFirst removeThird sampleThree
      "\<lparr>timestamp = JStr (js ''01:00''), description = JStr (js ''Intro'')\<rparr>"
      "\<lparr>timestamp = JStr (js ''02:00''), description = JStr (js ''Demo'')\<rparr>"
      "\<lparr>timestamp = JStr (js ''03:00''), description = JStr (js ''Questions'')\<rparr>"]
  by (simp add: removeFirst_def removeThird_def sampleThree_def)

lemma readResult_copy: "readResult (copyCells h r) (Suc (length h)) = Some r"
  by (simp add: readResult_def copyCells_def nth_append)

lemma applySummary_only: "applySummary r c = r\<lparr>summary := summary (applySummary r c)\<rparr>"
  by (simp add: applySummary_def Let_def split: option.splits jsval.splits)

lemma applyKeyMoments_only:
  "applyKeyMoments r idx c = r\<lparr>keyMoments := keyMoments (applyKeyMoments r idx c)\<rparr>"
  by (simp add: applyKeyMoments_def Let_def split: option.splits)

lemma applyCustomAnswer_only:
  "applyCustomAnswer r c = r\<lparr>customAnswer := customAnswer (applyCustomAnswer r c)\<rparr>"
  by (simp add: applyCustomAnswer_def split: option.splits)

lemma write_copy:
  "writeSummary (copyCells h r) (Suc (length h)) v = copyCells h (r\<lparr>summary := v\<rparr>)"
  "writeCustomAnswer (copyCells h r) (Suc (length h)) x = copyCells h (r\<lparr>customAnswer := x\<rparr>)"
  "keyMomentsOf (copyCells h r) (Suc (length h)) = length h"
  "writeElements (copyCells h r) (length h) hs = copyCells h (r\<lparr>keyMoments := hs\<rparr>)"
  by (simp_all add: writeSummary_def writeCustomAnswer_def keyMomentsOf_def writeElements_def
      copyCells_def nth_append list_update_append)

lemma applyIssueInPlace_copy:
  "applyIssueInPlace (Suc (length h)) (copyCells h r) issue = copyCells h (applyIssue r issue)"
proof (cases "field issue")
  case FSummary
  then show ?thesis
    using applySummary_only[of r "correction issue"]
    by (simp add: applyIssueInPlace_def readResult_copy write_copy applyIssue_def)
next
  case FKeyMoments
  then show ?thesis
    using applyKeyMoments_only[of r "index issue" "correction issue"]
    by (simp add: applyIssueInPlace_def readResult_copy write_copy applyIssue_def)
next
  case FCustomAnswer
  then show ?thesis
    using applyCustomAnswer_only[of r "correction issue"]
    by (simp add: applyIssueInPlace_def readResult_copy write_copy applyIssue_def)
qed

lemma foldl_in_place:
  "foldl (applyIssueInPlace (Suc (length h))) (copyCells h r) xs = copyCells h (foldl applyIssue r xs)"
  by (induction xs arbitrary: r) (simp_all add: applyIssueInPlace_copy)

lemma readResult_old:
  "readResult h a = Some r \<Longrightarrow> readResult (copyCells h r') a = Some r"
  by (auto simp: readResult_def copyCells_def nth_append split: if_splits cell.splits)

lemma applyCorrectionsInPlace_copy:
  assumes "readResult h a = Some r"
  shows "applyCorrectionsInPlace h a xs =
           Some (copyCells h (applyCorrections r xs), Suc (length h))"
  using assms
  by (simp add: applyCorrectionsInPlace_def jsonClone_def applyCorrections_def
      foldl_in_place[unfolded copyCells_def] copyCells_def)

lemma out_of_range_untouched:
  assumes "field issue = FKeyMoments" "index issue = Some n" "int (length (keyMoments r)) \<le> n"
    and "action (correction issue) = Remove \<or> action (correction issue) = Replace"
  shows "applyIssue r issue = r"
  using assms
  by (auto simp: applyIssue_def applyKeyMoments_def validIndex_def splice1_def Let_def
      split: option.splits)

lemma sampleHeap_read: "readResult sampleHeap 1 = Some sampleResult"
  by (simp add: sampleHeap_def readResult_def)

lemma sample_in_place:
  "applyCorrectionsInPlace sampleHeap 1 [removeSixth] =
     Some (sampleHeap @ [ArrayObject (keyMoments sampleResult),
                          ResultObject (customAnswer sampleResult) (summary sampleResult) 2], 3)"
proof -
  have "applyCorrections sampleResult [removeSixth] = sampleResult"
    by (simp add: applyCorrections_def sortIssues_def applyIssue_def applyKeyMoments_def
        validIndex_def splice1_def removeSixth_def sampleResult_def)
  then have "copyCells sampleHeap (applyCorrections sampleResult [removeSixth]) =
      sampleHeap @ [ArrayObject (keyMoments sampleResult),
                    ResultObject (customAnswer sampleResult) (summary sampleResult) 2]"
    by (simp add: copyCells_def sampleHeap_def)
  moreover have "Suc (length sampleHeap) = 3" by (simp add: sampleHeap_def)
  ultimately show ?thesis
    using applyCorrectionsInPlace_copy[OF sampleHeap_read, of "[removeSixth]"] by simp
qed

text \<open>
  Claim C10. A \<open>remove\<close> or a \<open>replace\<close> on the key moments whose index is at or past
  the current length leaves the result, and so the array, as it is: nothing is inserted.
  Given a reference to a result, \<open>applyCorrections\<close> always returns (the model has no
  error branch but a dangling reference, as the source has no \<open>throw\<close>); every cell the
  store had before the call is unchanged after it, so the object of the caller still
  reads as the input; and the object returned is new and reads as the corrected result.
\<close>

theorem applyCorrections_safe:
  "(field issue = FKeyMoments \<and> index issue = Some n \<and> int (length (keyMoments r)) \<le> n \<and>
      (action (correction issue) = Remove \<or> action (correction issue) = Replace)
      \<longrightarrow> applyIssue r issue = r) \<and>
   (readResult h a = Some r0 \<longrightarrow>
      (\<exists>h' c. applyCorrectionsInPlace h a xs = Some (h', c) \<and>
              take (length h) h' = h \<and>
              readResult h' a = Some r0 \<and>
              readResult h' c = Some (applyCorrections r0 xs)))"
proof (intro conjI impI)
  assume "field issue = FKeyMoments \<and> index issue = Some n \<and> int (length (keyMoments r)) \<le> n \<and>
      (action (correction issue) = Remove \<or> action (correction issue) = Replace)"
  then show "applyIssue r issue = r" by (simp add: out_of_range_untouched)
next
  assume a: "readResult h a = Some r0"
  let ?h' = "copyCells h (applyCorrections r0 xs)"
  have "applyCorrectionsInPlace h a xs = Some (?h', Suc (length h))"
    using a by (rule applyCorrectionsInPlace_copy)
  moreover have "take (length h) ?h' = h" by (simp add: copyCells_def)
  moreover have "readResult ?h' a = Some r0" using a by (rule readResult_old)
  moreover have "readResult ?h' (Suc (length h)) = Some (applyCorrections r0 xs)"
    by (rule readResult_copy)
  ultimately show "\<exists>h' c. applyCorrectionsInPlace h a xs = Some (h', c) \<and>
              take (length h) h' = h \<and>
              readResult h' a = Some r0 \<and>
              readResult h' c = Some (applyCorrections r0 xs)"
    by blast
qed

theorem applyCorrections_safe_witness:
  "applyIssue sampleResult removeSixth = sampleResult \<and>
   applyCorrectionsInPlace sampleHeap 1 [removeSixth] =
     Some (sampleHeap @ [ArrayObject (keyMoments sampleResult),
                          ResultObject (customAnswer sampleResult) (summary sampleResult) 2], 3) \<and>
   readResult (sampleHeap @ [ArrayObject (keyMoments sampleResult),
                          ResultObject (customAnswer sampleResult) (summary sampleResult) 2]) 1
     = Some sampleResult"
proof -
  have hyp1: "field removeSixth = FKeyMoments \<and> index removeSixth = Some 5 \<and>
      int (length (keyMoments sampleResult)) \<le> 5 \<and>
      (action (correction removeSixth) = Remove \<or> action (correction removeSixth) = Replace)"
    by (simp add: removeSixth_def sampleResult_def)
  note t = applyCorrections_safe[of removeSixth 5 sampleResult sampleHeap 1 sampleResult "[removeSixth]"]
  from t hyp1 have a: "applyIssue sampleResult removeSixth = sampleResult" by blast
  from t sampleHeap_read obtain h' c where
    hc: "applyCorrectionsInPlace sampleHeap 1 [removeSixth] = Some (h', c)"
        "readResult h' 1 = Some sampleResult" by blast
  from hc(1) sample_in_place have
    "h' = sampleHeap @ [ArrayObject (keyMoments sampleResult),
                          ResultObject (customAnswer sampleResult) (summary sampleResult) 2]"
    by simp
  with hc(2) a sample_in_place show ?thesis by simp
qed

section \<open>The retry loop\<close>

lemma retryLoop_unfold:
  "retryLoop operation timeoutMs maxAttempts operationName lastError attempt =
     (if attempt \<le> maxAttempts then
        (case withTimeout (operation attempt) timeoutMs operationName of
           Inr v \<Rightarrow> \<lparr>outcome = Inr v, calls = attempt, retried = []\<rparr>
         | Inl err \<Rightarrow>
             if isRetryable err \<and> attempt < maxAttempts then
               (let run = retryLoop operation timeoutMs maxAttempts operationName (Some err)
                            (attempt + 1)
                in run\<lparr>retried := (attempt, err) # retried run\<rparr>)
             else \<lparr>outcome = Inl err, calls = attempt, retried = []\<rparr>)
      else
        \<lparr>outcome = Inl (case lastError of Some e \<Rightarrow> e | None \<Rightarrow> newError (js ''Unknown error'')),
         calls = attempt - 1, retried = []\<rparr>)"
  by (rule retryLoop.simps)

lemma retryLoop_facts:
  "attempt \<le> maxAttempts \<Longrightarrow>
   attempt \<le> calls (retryLoop operation timeoutMs maxAttempts operationName lastError attempt) \<and>
   calls (retryLoop operation timeoutMs maxAttempts operationName lastError attempt) \<le> maxAttempts \<and>
   length (retried (retryLoop operation timeoutMs maxAttempts operationName lastError attempt)) + attempt
     = calls (retryLoop operation timeoutMs maxAttempts operationName lastError attempt) \<and>
   map fst (retried (retryLoop operation timeoutMs maxAttempts operationName lastError attempt))
     = [attempt..<calls (retryLoop operation timeoutMs maxAttempts operationName lastError attempt)] \<and>
   list_all (\<lambda>(k, e). isRetryable e \<and> withTimeout (operation k) timeoutMs operationName = Inl e)
     (retried (retryLoop operation timeoutMs maxAttempts operationName lastError attempt)) \<and>
   outcome (retryLoop operation timeoutMs maxAttempts operationName lastError attempt)
     = withTimeout (operation (calls (retryLoop operation timeoutMs maxAttempts operationName lastError attempt)))
         timeoutMs operationName \<and>
   (case outcome (retryLoop operation timeoutMs maxAttempts operationName lastError attempt) of
      Inl e \<Rightarrow> isRetryable e \<longrightarrow>
               calls (retryLoop operation timeoutMs maxAttempts operationName lastError attempt) = maxAttempts
    | Inr v \<Rightarrow> True)"
proof (induction operation timeoutMs maxAttempts operationName lastError attempt rule: retryLoop.induct)
  case (1 operation timeoutMs maxAttempts operationName lastError attempt)
  define R where "R = retryLoop operation timeoutMs maxAttempts operationName lastError attempt"
  show ?case
    unfolding R_def[symmetric]
  proof (cases "withTimeout (operation attempt) timeoutMs operationName")
    case (Inr v)
    with "1.prems" have "R = \<lparr>outcome = Inr v, calls = attempt, retried = []\<rparr>"
      unfolding R_def by (subst retryLoop_unfold) simp
    with "1.prems" Inr show "attempt \<le> calls R \<and> calls R \<le> maxAttempts \<and>
       length (retried R) + attempt = calls R \<and>
       map fst (retried R) = [attempt..<calls R] \<and>
       list_all (\<lambda>(k, e). isRetryable e \<and> withTimeout (operation k) timeoutMs operationName = Inl e) (retried R) \<and>
       outcome R = withTimeout (operation (calls R)) timeoutMs operationName \<and>
       (case outcome R of Inl e \<Rightarrow> isRetryable e \<longrightarrow> calls R = maxAttempts | Inr v \<Rightarrow> True)"
      by simp
  next
    case (Inl err)
    show "attempt \<le> calls R \<and> calls R \<le> maxAttempts \<and>
       length (retried R) + attempt = calls R \<and>
       map fst (retried R) = [attempt..<calls R] \<and>
       list_all (\<lambda>(k, e). isRetryable e \<and> withTimeout (operation k) timeoutMs operationName = Inl e) (retried R) \<and>
       outcome R = withTimeout (operation (calls R)) timeoutMs operationName \<and>
       (case outcome R of Inl e \<Rightarrow> isRetryable e \<longrightarrow> calls R = maxAttempts | Inr v \<Rightarrow> True)"
    proof (cases "isRetryable err \<and> attempt < maxAttempts")
      case False
      have "R = \<lparr>outcome = Inl err, calls = attempt, retried = []\<rparr>"
        unfolding R_def
        by (subst retryLoop_unfold) (simp only: "1.prems" Inl False if_True if_False sum.case)
      with "1.prems" Inl False show ?thesis by auto
    next
      case True
      then have le: "attempt + 1 \<le> maxAttempts" by simp
      define R' where "R' = retryLoop operation timeoutMs maxAttempts operationName (Some err) (attempt + 1)"
      note ih = "1.IH"[OF "1.prems" Inl True le, folded R'_def]
      have step: "R = R'\<lparr>retried := (attempt, err) # retried R'\<rparr>"
        unfolding R_def R'_def using Inl True "1.prems"
        by (subst retryLoop_unfold) (simp add: Let_def)
      from ih have "attempt < calls R'" by simp
      then have upt: "[attempt..<calls R'] = attempt # [attempt + 1..<calls R']"
        by (simp add: upt_conv_Cons)
      show ?thesis
        unfolding step using ih Inl True upt by (auto split: sum.splits)
    qed
  qed
qed

lemma withTimeout_Pending:
  "withTimeout Pending timeoutMs operationName = Inl (TimeoutError operationName timeoutMs)"
  by (simp add: withTimeout_def)

lemma run_facts:
  fixes operation :: "nat \<Rightarrow> 'a promise" and timeoutMs maxAttempts :: nat and operationName :: jsstring
  assumes "1 \<le> maxAttempts"
  defines "run \<equiv> withTimeoutAndRetry operation timeoutMs maxAttempts operationName"
  shows "1 \<le> calls run" "calls run \<le> maxAttempts"
    "map fst (retried run) = [1..<calls run]"
    "list_all (\<lambda>(k, e). isRetryable e \<and> withTimeout (operation k) timeoutMs operationName = Inl e)
       (retried run)"
    "outcome run = withTimeout (operation (calls run)) timeoutMs operationName"
    "outcome run = Inl e \<Longrightarrow> calls run < maxAttempts \<Longrightarrow> \<not> isRetryable e"
  using retryLoop_facts[OF assms(1), of operation timeoutMs operationName None]
  unfolding run_def withTimeoutAndRetry_def by (auto split: sum.splits)

lemma always_timeout:
  assumes "\<forall>k. operation k = Pending"
  shows "withTimeoutAndRetry operation timeoutMs MAX_RETRY_ATTEMPTS operationName =
           \<lparr>outcome = Inl (TimeoutError operationName timeoutMs), calls = 3,
            retried = [(1, TimeoutError operationName timeoutMs),
                       (2, TimeoutError operationName timeoutMs)]\<rparr>"
proof -
  let ?te = "TimeoutError operationName timeoutMs"
  define run where "run = withTimeoutAndRetry operation timeoutMs MAX_RETRY_ATTEMPTS operationName"
  have m: "1 \<le> MAX_RETRY_ATTEMPTS" by (simp add: MAX_RETRY_ATTEMPTS_def)
  note f = run_facts[OF m, of operation timeoutMs operationName, folded run_def]
  have wt: "withTimeout (operation k) timeoutMs operationName = Inl ?te" for k
    using assms by (simp add: withTimeout_Pending)
  from f(5) wt have out: "outcome run = Inl ?te" by simp
  have "calls run = MAX_RETRY_ATTEMPTS"
  proof (rule ccontr)
    assume "calls run \<noteq> MAX_RETRY_ATTEMPTS"
    with f(2) have "calls run < MAX_RETRY_ATTEMPTS" by simp
    from f(6)[OF out this] show False by (simp add: isRetryable_def)
  qed
  then have c: "calls run = 3" by (simp add: MAX_RETRY_ATTEMPTS_def)
  from f(3) c have keys: "map fst (retried run) = [1, 2]"
    by (simp add: upt_rec[of 1] upt_rec[of 2] numeral_3_eq_3)
  from f(4) wt have vals: "list_all (\<lambda>(k, e). e = ?te) (retried run)"
    by (auto simp: list_all_iff)
  from keys vals have r: "retried run = [(1, ?te), (2, ?te)]"
    by (cases "retried run") (auto simp: list_all_iff)
  have "run = \<lparr>outcome = outcome run, calls = calls run, retried = retried run\<rparr>" by simp
  with out c r show ?thesis unfolding run_def by simp
qed

lemma abort_at:
  assumes k: "1 \<le> k" "k \<le> maxAttempts"
    and before: "\<forall>j. 1 \<le> j \<and> j < k \<longrightarrow>
           (\<exists>e'. withTimeout (operation j) timeoutMs operationName = Inl e' \<and> isRetryable e')"
    and at: "withTimeout (operation k) timeoutMs operationName = Inl e" "\<not> isRetryable e"
  shows "outcome (withTimeoutAndRetry operation timeoutMs maxAttempts operationName) = Inl e \<and>
         calls (withTimeoutAndRetry operation timeoutMs maxAttempts operationName) = k"
proof -
  define run where "run = withTimeoutAndRetry operation timeoutMs maxAttempts operationName"
  from k have m: "1 \<le> maxAttempts" by simp
  note f = run_facts[OF m, of operation timeoutMs operationName, folded run_def]
  have "\<not> calls run < k"
  proof
    assume lt: "calls run < k"
    with f(1) before obtain e' where
      e': "withTimeout (operation (calls run)) timeoutMs operationName = Inl e'" "isRetryable e'"
      by blast
    with f(5) have "outcome run = Inl e'" by simp
    moreover from lt k have "calls run < maxAttempts" by simp
    ultimately have "\<not> isRetryable e'" by (rule f(6))
    with e' show False by simp
  qed
  moreover have "\<not> k < calls run"
  proof
    assume gt: "k < calls run"
    with k f(3) have "k \<in> set (map fst (retried run))" by simp
    then obtain e' where "(k, e') \<in> set (retried run)" by auto
    with f(4) have "isRetryable e'" "withTimeout (operation k) timeoutMs operationName = Inl e'"
      by (auto simp: list_all_iff)
    with at show False by simp
  qed
  ultimately have "calls run = k" by simp
  with f(5) at show ?thesis unfolding run_def by simp
qed

lemma matchesAt_eval:
  "matchesAt (p # ps) (c # cs) = (p c \<and> matchesAt ps cs)"
  "matchesAt [] s = True"
  "matchesAt (p # ps) [] = False"
  by simp_all

lemma network_error_retryable: "isRetryable (newError (js ''Network request failed''))"
  by (simp add: isRetryable_def newError_def networkShaped_def lowerIncludes_def js_simps lowersTo_def)

lemma invalid_key_not_retryable: "\<not> isRetryable invalidKeyError"
  by (simp add: invalidKeyError_def isRetryable_def newError_def networkShaped_def lowerIncludes_def
      js_simps lowersTo_def)

text \<open>
  Claim C4. An operation whose promise is pending at every timeout is called exactly
  \<open>MAX_RETRY_ATTEMPTS\<close> = 3 times (retried after the first and the second call), and the
  wrapper then rejects with the \<open>TimeoutError\<close>, which the orchestrator classifies as a
  timeout. For any operation and any ceiling of at least one attempt, the operation is
  called at least once and at most the ceiling, each retry follows a failure classified
  retryable (a timeout, or an error that is network-shaped: its message contains
  \<open>network\<close>, \<open>fetch\<close> or \<open>connection\<close>, or its name is \<open>TypeError\<close>), and the first
  failure that is not retryable ends the run at that attempt with that error.
\<close>

theorem retry_ceiling:
  "((\<forall>k. operation k = Pending) \<longrightarrow>
      withTimeoutAndRetry operation timeoutMs MAX_RETRY_ATTEMPTS operationName =
        \<lparr>outcome = Inl (TimeoutError operationName timeoutMs), calls = 3,
         retried = [(1, TimeoutError operationName timeoutMs),
                    (2, TimeoutError operationName timeoutMs)]\<rparr> \<and>
      isTimeoutErr (TimeoutError operationName timeoutMs)) \<and>
   (1 \<le> maxAttempts \<longrightarrow>
      1 \<le> calls (withTimeoutAndRetry operation timeoutMs maxAttempts operationName) \<and>
      calls (withTimeoutAndRetry operation timeoutMs maxAttempts operationName) \<le> maxAttempts \<and>
      map fst (retried (withTimeoutAndRetry operation timeoutMs maxAttempts operationName)) =
        [1..<calls (withTimeoutAndRetry operation timeoutMs maxAttempts operationName)] \<and>
      list_all (\<lambda>(k, e). isRetryable e \<and> withTimeout (operation k) timeoutMs operationName = Inl e)
        (retried (withTimeoutAndRetry operation timeoutMs maxAttempts operationName))) \<and>
   (1 \<le> n \<and> n \<le> maxAttempts \<and>
    (\<forall>j. 1 \<le> j \<and> j < n \<longrightarrow>
       (\<exists>e'. withTimeout (operation j) timeoutMs operationName = Inl e' \<and> isRetryable e')) \<and>
    withTimeout (operation n) timeoutMs operationName = Inl e \<and> \<not> isRetryable e \<longrightarrow>
      outcome (withTimeoutAndRetry operation timeoutMs maxAttempts operationName) = Inl e \<and>
      calls (withTimeoutAndRetry operation timeoutMs maxAttempts operationName) = n)"
proof (intro conjI impI)
  assume "\<forall>k. operation k = Pending"
  then show "withTimeoutAndRetry operation timeoutMs MAX_RETRY_ATTEMPTS operationName =
        \<lparr>outcome = Inl (TimeoutError operationName timeoutMs), calls = 3,
         retried = [(1, TimeoutError operationName timeoutMs),
                    (2, TimeoutError operationName timeoutMs)]\<rparr>"
    by (rule always_timeout)
next
  show "isTimeoutErr (TimeoutError operationName timeoutMs)" by (simp add: isTimeoutErr_def)
next
  assume m: "1 \<le> maxAttempts"
  note f = run_facts[OF m, of operation timeoutMs operationName]
  show "1 \<le> calls (withTimeoutAndRetry operation timeoutMs maxAttempts operationName)" by (rule f(1))
  show "calls (withTimeoutAndRetry operation timeoutMs maxAttempts operationName) \<le> maxAttempts"
    by (rule f(2))
  show "map fst (retried (withTimeoutAndRetry operation timeoutMs maxAttempts operationName)) =
        [1..<calls (withTimeoutAndRetry operation timeoutMs maxAttempts operationName)]" by (rule f(3))
  show "list_all (\<lambda>(k, e). isRetryable e \<and> withTimeout (operation k) timeoutMs operationName = Inl e)
        (retried (withTimeoutAndRetry operation timeoutMs maxAttempts operationName))" by (rule f(4))
next
  assume a: "1 \<le> n \<and> n \<le> maxAttempts \<and>
    (\<forall>j. 1 \<le> j \<and> j < n \<longrightarrow>
       (\<exists>e'. withTimeout (operation j) timeoutMs operationName = Inl e' \<and> isRetryable e')) \<and>
    withTimeout (operation n) timeoutMs operationName = Inl e \<and> \<not> isRetryable e"
  then have r: "outcome (withTimeoutAndRetry operation timeoutMs maxAttempts operationName) = Inl e \<and>
         calls (withTimeoutAndRetry operation timeoutMs maxAttempts operationName) = n"
    using abort_at[of n maxAttempts operation timeoutMs operationName e] by blast
  from r show "outcome (withTimeoutAndRetry operation timeoutMs maxAttempts operationName) = Inl e" ..
  from r show "calls (withTimeoutAndRetry operation timeoutMs maxAttempts operationName) = n" ..
qed

theorem retry_ceiling_witness:
  "withTimeoutAndRetry alwaysPending SUMMARY_TIMEOUT_MS MAX_RETRY_ATTEMPTS (js ''Video analysis'') =
     \<lparr>outcome = Inl (TimeoutError (js ''Video analysis'') SUMMARY_TIMEOUT_MS), calls = 3,
      retried = [(1, TimeoutError (js ''Video analysis'') SUMMARY_TIMEOUT_MS),
                 (2, TimeoutError (js ''Video analysis'') SUMMARY_TIMEOUT_MS)]\<rparr> \<and>
   outcome (withTimeoutAndRetry failsThenRejects SUMMARY_TIMEOUT_MS MAX_RETRY_ATTEMPTS
              (js ''Video analysis'')) = Inl invalidKeyError \<and>
   calls (withTimeoutAndRetry failsThenRejects SUMMARY_TIMEOUT_MS MAX_RETRY_ATTEMPTS
            (js ''Video analysis'')) = 2"
proof -
  have p: "\<forall>k. alwaysPending k = Pending" by (simp add: alwaysPending_def)
  have a: "withTimeoutAndRetry alwaysPending SUMMARY_TIMEOUT_MS MAX_RETRY_ATTEMPTS (js ''Video analysis'') =
     \<lparr>outcome = Inl (TimeoutError (js ''Video analysis'') SUMMARY_TIMEOUT_MS), calls = 3,
      retried = [(1, TimeoutError (js ''Video analysis'') SUMMARY_TIMEOUT_MS),
                 (2, TimeoutError (js ''Video analysis'') SUMMARY_TIMEOUT_MS)]\<rparr>"
    using retry_ceiling[of alwaysPending SUMMARY_TIMEOUT_MS "js ''Video analysis''"] p by blast
  have h: "1 \<le> (2::nat) \<and> 2 \<le> MAX_RETRY_ATTEMPTS \<and>
    (\<forall>j. 1 \<le> j \<and> j < 2 \<longrightarrow>
       (\<exists>e'. withTimeout (failsThenRejects j) SUMMARY_TIMEOUT_MS (js ''Video analysis'') = Inl e' \<and>
             isRetryable e')) \<and>
    withTimeout (failsThenRejects 2) SUMMARY_TIMEOUT_MS (js ''Video analysis'') = Inl invalidKeyError \<and>
    \<not> isRetryable invalidKeyError"
  proof (intro conjI allI impI)
    fix j :: nat assume "1 \<le> j \<and> j < 2"
    then have "j = 1" by simp
    then show "\<exists>e'. withTimeout (failsThenRejects j) SUMMARY_TIMEOUT_MS (js ''Video analysis'') = Inl e' \<and>
             isRetryable e'"
      using network_error_retryable by (simp add: failsThenRejects_def withTimeout_def)
  qed (simp_all add: MAX_RETRY_ATTEMPTS_def failsThenRejects_def withTimeout_def
        invalid_key_not_retryable)
  have b: "outcome (withTimeoutAndRetry failsThenRejects SUMMARY_TIMEOUT_MS MAX_RETRY_ATTEMPTS
              (js ''Video analysis'')) = Inl invalidKeyError \<and>
   calls (withTimeoutAndRetry failsThenRejects SUMMARY_TIMEOUT_MS MAX_RETRY_ATTEMPTS
            (js ''Video analysis'')) = 2"
    using retry_ceiling[of failsThenRejects SUMMARY_TIMEOUT_MS "js ''Video analysis''"
        MAX_RETRY_ATTEMPTS 2 invalidKeyError] h by blast
  from a b show ?thesis by simp
qed

section \<open>Credentials\<close>

lemma trim_empty_iff: "trim s = [] \<longleftrightarrow> (\<forall>c \<in> set s. isWhiteSpace c)"
proof -
  have "(\<forall>x \<in> set (dropWhile isWhiteSpace s). isWhiteSpace x) \<longleftrightarrow> (\<forall>c \<in> set s. isWhiteSpace c)"
  proof
    assume a: "\<forall>x \<in> set (dropWhile isWhiteSpace s). isWhiteSpace x"
    have "dropWhile isWhiteSpace s = []"
    proof (rule ccontr)
      assume ne: "dropWhile isWhiteSpace s \<noteq> []"
      then have "\<not> isWhiteSpace (hd (dropWhile isWhiteSpace s))" by (rule hd_dropWhile)
      moreover from ne have "hd (dropWhile isWhiteSpace s) \<in> set (dropWhile isWhiteSpace s)"
        by simp
      ultimately show False using a by blast
    qed
    then show "\<forall>c \<in> set s. isWhiteSpace c" by (simp add: dropWhile_eq_Nil_conv)
  next
    assume "\<forall>c \<in> set s. isWhiteSpace c"
    then show "\<forall>x \<in> set (dropWhile isWhiteSpace s). isWhiteSpace x"
      using set_dropWhileD by fastforce
  qed
  then show ?thesis by (simp add: trim_def trimStart_def dropWhile_eq_Nil_conv)
qed

lemma ensureCredentials_blank:
  "trim (key c) = [] \<Longrightarrow> ensureCredentials (Some c) = Inl notConfigured"
  by (simp add: ensureCredentials_def notConfigured_def)

text \<open>
  Claim C8. With credentials whose key is empty once trimmed (that is, empty or made of
  white space only), each of \<open>answerUserQuestion\<close>, \<open>analyzeVideo\<close>, \<open>improveResult\<close> and
  \<open>validateProviderCredentials\<close> rejects with the error \<open>API Key not configured\<close> and
  has done nothing before: no client was created, no prompt built, the provider was not
  called, and \<open>analyzeVideo\<close> has not written the module variable.
\<close>

theorem blank_key_rejected_first:
  assumes "trim (key c) = []"
  shows "answerUserQuestion llm parse transcript q (Some c) lang = ([], Rejected notConfigured) \<and>
         analyzeVideo llm parse lastPrompt transcript (Some c) lang
           = (lastPrompt, [], Rejected notConfigured) \<and>
         improveResult llm parseV lastPrompt r transcript (Some c) lang = ([], Rejected notConfigured) \<and>
         validateProviderCredentials llm (Some c) = ([], Rejected notConfigured)"
  using assms
  by (simp add: answerUserQuestion_def analyzeVideo_def improveResult_def
      validateProviderCredentials_def ensureCredentials_blank)

theorem blank_key_rejected_first_witness:
  "trim (key blankCredentials) = [] \<and>
   analyzeVideo (\<lambda>client p. Resolved (js ''{}'')) jsonParse None (js ''[00:00] Hello'')
       (Some blankCredentials) (Some english) = (None, [], Rejected notConfigured) \<and>
   validateProviderCredentials (\<lambda>client p. Resolved (js ''OK'')) (Some blankCredentials)
     = ([], Rejected notConfigured)"
proof -
  have b: "trim (key blankCredentials) = []"
    by (simp add: trim_empty_iff blankCredentials_def isWhiteSpace_def)
  from blank_key_rejected_first[OF b, of "\<lambda>client p. Resolved (js ''{}'')" jsonParse
      "js ''[00:00] Hello''" "[]" "Some english" None "\<lambda>s. None" sampleResult]
  have "analyzeVideo (\<lambda>client p. Resolved (js ''{}'')) jsonParse None (js ''[00:00] Hello'')
       (Some blankCredentials) (Some english) = (None, [], Rejected notConfigured)" by blast
  moreover from blank_key_rejected_first[OF b, of "\<lambda>client p. Resolved (js ''OK'')" jsonParse
      "[]" "[]" None None "\<lambda>s. None" sampleResult]
  have "validateProviderCredentials (\<lambda>client p. Resolved (js ''OK'')) (Some blankCredentials)
     = ([], Rejected notConfigured)" by blast
  ultimately show ?thesis using b by simp
qed

section \<open>The generation phase and the improvement\<close>

lemma generate_question:
  assumes "trim (queryText env) \<noteq> []"
  shows "generate env t =
     (case promiseAll2 (answerRejectsFirst env) (outcome (answerRun env t)) (outcome (analysisRun env t)) of
        Inl e \<Rightarrow> Inl e
      | Inr (ua, an) \<Rightarrow> Inr (mergedResult ua an))"
  using assms
  by (simp add: generate_def answerRun_def analysisRun_def mergedResult_def Let_def
      split: sum.splits prod.splits)

lemma promiseAll2_Inr:
  "promiseAll2 f a b = Inr (x, y) \<longleftrightarrow> a = Inr x \<and> b = Inr y"
  by (auto simp: promiseAll2_def split: sum.splits)

lemma promiseAll2_fail:
  "(\<exists>e. a = Inl e) \<or> (\<exists>e. b = Inl e) \<Longrightarrow> \<exists>e. promiseAll2 f a b = Inl e"
  by (auto simp: promiseAll2_def split: sum.splits)

lemma generationPhase_reached:
  assumes "reachesGeneration env t"
  shows "generationPhase env st =
     (case generate env t of
        Inl e \<Rightarrow>
          (if cancelledAtResult env
           then st\<lparr>status := LOADING, error := None, result := None, isImproving := False\<rparr>
           else st\<lparr>status := ERROR, error := Some (Caught e), result := None, isImproving := False\<rparr>,
           None)
      | Inr initialResult \<Rightarrow>
          if cancelledAtResult env
          then (st\<lparr>status := LOADING, error := None, result := None, isImproving := False\<rparr>, None)
          else (st\<lparr>status := SUCCESS, error := None, result := Some initialResult, isImproving := True\<rparr>,
                Some (t, initialResult)))"
  using assms
  by (auto simp: generationPhase_def reachesGeneration_def Let_def split: sum.splits)

lemma validationCallFails_cases:
  "validationCallFails parse reply \<longleftrightarrow>
     (case reply of
        Pending \<Rightarrow> False
      | Rejected e \<Rightarrow> True
      | Resolved txt \<Rightarrow>
          trim txt = [] \<or>
          (parse (trim txt) = None \<and>
            (extractJsonFromText (trim txt) = trim txt \<or>
             parse (extractJsonFromText (trim txt)) = None)))"
  by (auto simp: validationCallFails_def invokeModelForJson_def parseJsonContent_def Let_def
      split: promise.splits option.splits sum.splits)

lemma validateResult_fail_open:
  assumes "validationCallFails parse (llm client (ValidationPrompt r t orig lname lcode))"
  shows "snd (validateResult llm parse client r t orig lname lcode) =
           Resolved \<lparr>isValid = True, issues = []\<rparr>"
  using assms
  by (simp add: validateResult_def validationCallFails_def Let_def split: promise.splits)

lemma analysisOf_sanitized:
  "analysisOf response = Inr an \<Longrightarrow> \<exists>x. keyMoments an = sanitizeKeyMoments x"
  by (auto simp: analysisOf_def split: if_splits)

lemma analyzeVideo_resolved:
  assumes "snd (snd (analyzeVideo llm parse lp t creds lang)) = Resolved an"
  shows "(\<exists>x. keyMoments an = sanitizeKeyMoments x) \<and> (\<exists>c. ensureCredentials creds = Inr c)"
  using assms
  by (auto simp: analyzeVideo_def Let_def
      split: sum.splits prod.splits promise.splits dest: analysisOf_sanitized)

lemma withTimeout_Inr: "withTimeout p ms nm = Inr v \<Longrightarrow> p = Resolved v"
  by (simp add: withTimeout_def split: promise.splits)

lemma analysisRun_resolved:
  assumes "outcome (analysisRun env t) = Inr an"
  shows "(\<exists>x. keyMoments an = sanitizeKeyMoments x) \<and>
         (\<exists>c. ensureCredentials (storedCredentials env) = Inr c)"
proof -
  have m: "1 \<le> MAX_RETRY_ATTEMPTS" by (simp add: MAX_RETRY_ATTEMPTS_def)
  from run_facts(5)[OF m, of "analysisOperation env t" SUMMARY_TIMEOUT_MS "js ''Video analysis''"] assms
  obtain k where "withTimeout (analysisOperation env t k) SUMMARY_TIMEOUT_MS (js ''Video analysis'') = Inr an"
    unfolding analysisRun_def by metis
  then have "analysisOperation env t k = Resolved an" by (rule withTimeout_Inr)
  then show ?thesis unfolding analysisOperation_def by (rule analyzeVideo_resolved)
qed

lemma generate_resolved:
  assumes "generate env t = Inr init"
  shows "(\<exists>x. keyMoments init = sanitizeKeyMoments x) \<and>
         (\<exists>c. ensureCredentials (storedCredentials env) = Inr c)"
proof (cases "trim (queryText env) = []")
  case True
  with assms have "outcome (analysisRun env t) = Inr init"
    by (simp add: generate_def analysisRun_def)
  then show ?thesis by (rule analysisRun_resolved)
next
  case False
  with assms obtain ua an where
    "promiseAll2 (answerRejectsFirst env) (outcome (answerRun env t)) (outcome (analysisRun env t)) = Inr (ua, an)"
    "init = mergedResult ua an"
    by (auto simp: generate_question split: sum.splits)
  then have "outcome (analysisRun env t) = Inr an" "keyMoments init = keyMoments an"
    by (simp_all add: promiseAll2_Inr mergedResult_def)
  with analysisRun_resolved[of env t an] show ?thesis by simp
qed

lemma improveResult_fail_open:
  assumes creds: "ensureCredentials creds = Inr c"
    and san: "keyMoments init = sanitizeKeyMoments x"
    and fails: "validationCallFails parse reply"
  shows "snd (improveResult (\<lambda>client p. reply) parse lp init t creds lang) = Resolved init"
proof -
  have km: "sanitizeKeyMoments (momentsJs (keyMoments init)) = keyMoments init"
    unfolding san by (rule sanitizeKeyMoments_idem)
  have cl: "ensureCredentials (Some c) = Inr c"
    using creds by (auto simp: ensureCredentials_def split: option.splits if_splits)
  have v: "snd (validateResult (\<lambda>client p. reply) parse client init t' orig lname lcode) =
      Resolved \<lparr>isValid = True, issues = []\<rparr>" for client t' orig lname lcode
    by (rule validateResult_fail_open) (use fails in simp)
  have vf: "snd (validateAndFixResult (\<lambda>client p. reply) parse client init t' orig lname lcode) =
      Resolved init" for client t' orig lname lcode
    using v[of client t' orig lname lcode]
    by (cases "validateResult (\<lambda>client p. reply) parse client init t' orig lname lcode")
       (simp add: validateAndFixResult_def km)
  have vf': "out = Resolved init"
    if "validateAndFixResult (\<lambda>client p. reply) parse client init t' orig lname lcode = (effs, out)"
    for client t' orig lname lcode effs out
    using vf[of client t' orig lname lcode] that by simp
  show ?thesis
    using creds cl
    by (auto simp: improveResult_def createLLM_def Let_def split: prod.splits dest: vf')
qed

lemma result_persist: "result (persist env res st) = result st"
  by (simp add: persist_def split: option.splits prod.splits promise.splits)

lemma improve_fail_open:
  assumes "generate env t = Inr init"
    and "validationCallFails (parseValidation env) (validationReply env)"
    and "result st' = Some init"
  shows "result (improve env t init st') = Some init"
proof -
  from generate_resolved[OF assms(1)] obtain x c where
    "keyMoments init = sanitizeKeyMoments x" "ensureCredentials (storedCredentials env) = Inr c"
    by blast
  from improveResult_fail_open[OF this(2) this(1) assms(2)]
  show ?thesis
    using assms(3) by (simp add: improve_def result_persist)
qed

lemma generationPhase_Some:
  assumes "generationPhase env st = (st', Some (t, init))"
  shows "generate env t = Inr init \<and> result st' = Some init \<and> status st' = SUCCESS"
  using assms
  by (auto simp: generationPhase_def Let_def split: if_splits sum.splits)

lemma sampleAnalysisText_parsed: "jsonParse sampleAnalysisText =
  Some (JObj [(js ''summary'', JStr (js ''S'')),
              (js ''keyMoments'', JArr [JObj [(js ''timestamp'', JStr (js '' 00:00'')), (js ''description'', JStr (js ''Hello''))],
                                        JObj [(js ''timestamp'', JStr (js ''01:30''))]])])"
  by (simp add: sampleAnalysisText_def js_simps jsonParse_def skipWs_def isJsonSpace_def
      startsWith_def setProp_def parseNumber_def isDigit_def escapeOf_def Let_def)

lemma sampleAnswerText_parsed: "jsonParse sampleAnswerText =
  Some (JObj [(js ''text'', JStr (js '' A greeting. '')),
              (js ''relatedSegments'', JArr [JStr (js ''00:00 - 00:10''), JStr []])])"
  by (simp add: sampleAnswerText_def js_simps jsonParse_def skipWs_def isJsonSpace_def
      startsWith_def setProp_def parseNumber_def isDigit_def escapeOf_def Let_def)

lemma trim_sampleAnalysisText: "trim sampleAnalysisText = sampleAnalysisText"
  by (rule trans[OF trim_def]) (simp add: trimStart_def sampleAnalysisText_def js_simps isWhiteSpace_def)

lemma trim_sampleAnswerText: "trim sampleAnswerText = sampleAnswerText"
  by (rule trans[OF trim_def]) (simp add: trimStart_def sampleAnswerText_def js_simps isWhiteSpace_def)

lemma sampleAnalysisText_ne: "sampleAnalysisText \<noteq> []" "sampleAnswerText \<noteq> []"
  by (simp_all add: sampleAnalysisText_def sampleAnswerText_def js_simps)

lemma analysisOf_sample:
  "analysisOf (JObj [(js ''summary'', JStr (js ''S'')),
              (js ''keyMoments'', JArr [JObj [(js ''timestamp'', JStr (js '' 00:00'')), (js ''description'', JStr (js ''Hello''))],
                                        JObj [(js ''timestamp'', JStr (js ''01:30''))]])]) = Inr sampleAnalysis"
  by (simp add: analysisOf_def sampleAnalysis_def sanitizeKeyMoments_def sanitizeMoment_def
      trimmedString_def jsLength_def js_simps trim_eval trim_Nil isWhiteSpace_def)

lemma sanitizeUserAnswer_sample:
  "sanitizeUserAnswer (JObj [(js ''text'', JStr (js '' A greeting. '')),
              (js ''relatedSegments'', JArr [JStr (js ''00:00 - 00:10''), JStr []])]) = Inr sampleAnswer"
  by (simp add: sanitizeUserAnswer_def sampleAnswer_def trimmedString_def js_simps trim_eval trim_Nil
      isWhiteSpace_def)

lemma plain_credentials:
  "ensureCredentials (Some \<lparr>provider = Google, key = js ''key-123''\<rparr>)
     = Inr \<lparr>provider = Google, key = js ''key-123''\<rparr>"
  by (simp add: ensureCredentials_def js_simps trim_eval isWhiteSpace_def)

lemma analysisOperation_sample:
  "analysisReplies env k = Resolved sampleAnalysisText \<Longrightarrow> parseJson env = jsonParse \<Longrightarrow>
   storedCredentials env = Some \<lparr>provider = Google, key = js ''key-123''\<rparr> \<Longrightarrow>
   analysisOperation env t k = Resolved sampleAnalysis"
  by (simp add: analysisOperation_def analyzeVideo_def plain_credentials createLLM_def
      invokeModelForJson_def parseJsonContent_def trim_sampleAnalysisText sampleAnalysisText_ne
      sampleAnalysisText_parsed analysisOf_sample Let_def split: prod.splits)

lemma answerOperation_sample:
  "answerReplies env k = Resolved sampleAnswerText \<Longrightarrow> parseJson env = jsonParse \<Longrightarrow>
   storedCredentials env = Some \<lparr>provider = Google, key = js ''key-123''\<rparr> \<Longrightarrow>
   answerOperation env t q k = Resolved sampleAnswer"
  by (simp add: answerOperation_def answerUserQuestion_def plain_credentials createLLM_def
      invokeModelForJson_def parseJsonContent_def trim_sampleAnswerText sampleAnalysisText_ne
      sampleAnswerText_parsed sanitizeUserAnswer_sample Let_def split: prod.splits)

lemma answerOperation_rejects:
  "answerReplies env k = Rejected e \<Longrightarrow>
   storedCredentials env = Some \<lparr>provider = Google, key = js ''key-123''\<rparr> \<Longrightarrow>
   answerOperation env t q k = Rejected e"
  by (simp add: answerOperation_def answerUserQuestion_def plain_credentials createLLM_def
      invokeModelForJson_def Let_def split: prod.splits)

lemma first_attempt_resolves:
  assumes "operation 1 = Resolved v" "1 \<le> maxAttempts"
  shows "withTimeoutAndRetry operation timeoutMs maxAttempts operationName =
           \<lparr>outcome = Inr v, calls = 1, retried = []\<rparr>"
  unfolding withTimeoutAndRetry_def using assms
  by (subst retryLoop_unfold) (simp add: withTimeout_def)

lemma env_fields:
  "storedCredentials plainEnv = Some \<lparr>provider = Google, key = js ''key-123''\<rparr>"
  "storedCredentials questionEnv = Some \<lparr>provider = Google, key = js ''key-123''\<rparr>"
  "storedCredentials answeredEnv = Some \<lparr>provider = Google, key = js ''key-123''\<rparr>"
  "parseJson plainEnv = jsonParse" "parseJson questionEnv = jsonParse" "parseJson answeredEnv = jsonParse"
  "analysisReplies plainEnv k = Resolved sampleAnalysisText"
  "analysisReplies questionEnv k = Resolved sampleAnalysisText"
  "analysisReplies answeredEnv k = Resolved sampleAnalysisText"
  "answerReplies questionEnv k = Rejected invalidKeyError"
  "answerReplies answeredEnv k = Resolved sampleAnswerText"
  by (simp_all add: plainEnv_def questionEnv_def answeredEnv_def)

lemma sampleTranscript_length: "length sampleTranscript = 61"
  by (simp add: sampleTranscript_def js_def)

lemma reaches_samples:
  "reachesGeneration plainEnv sampleTranscript"
  "reachesGeneration questionEnv sampleTranscript"
  "reachesGeneration answeredEnv sampleTranscript"
  by (simp_all add: reachesGeneration_def plainEnv_def questionEnv_def answeredEnv_def
      sampleTranscript_length js_simps)

lemma trimmed_queries:
  "trim (queryText plainEnv) = []"
  "trim (queryText questionEnv) = js ''What is shown?''"
  "trim (queryText answeredEnv) = js ''What is shown?''"
  by (simp_all add: plainEnv_def questionEnv_def answeredEnv_def js_simps trim_eval isWhiteSpace_def)

lemma max_attempts_pos: "1 \<le> MAX_RETRY_ATTEMPTS"
  by (simp add: MAX_RETRY_ATTEMPTS_def)

lemma analysisRun_samples:
  "analysisRun plainEnv sampleTranscript = \<lparr>outcome = Inr sampleAnalysis, calls = 1, retried = []\<rparr>"
  "analysisRun questionEnv sampleTranscript = \<lparr>outcome = Inr sampleAnalysis, calls = 1, retried = []\<rparr>"
  "analysisRun answeredEnv sampleTranscript = \<lparr>outcome = Inr sampleAnalysis, calls = 1, retried = []\<rparr>"
  unfolding analysisRun_def
  by (rule first_attempt_resolves[OF analysisOperation_sample max_attempts_pos]; simp add: env_fields)+

lemma answerRun_answered:
  "answerRun answeredEnv sampleTranscript = \<lparr>outcome = Inr sampleAnswer, calls = 1, retried = []\<rparr>"
  unfolding answerRun_def
  by (rule first_attempt_resolves[OF answerOperation_sample max_attempts_pos]; simp add: env_fields)

lemma answerRun_question:
  "outcome (answerRun questionEnv sampleTranscript) = Inl invalidKeyError \<and>
   calls (answerRun questionEnv sampleTranscript) = 1"
proof -
  have w: "withTimeout (answerOperation questionEnv sampleTranscript (trim (queryText questionEnv)) 1)
             SUMMARY_TIMEOUT_MS (js ''User question analysis'') = Inl invalidKeyError"
    by (simp add: withTimeout_def answerOperation_rejects[OF env_fields(10) env_fields(2)])
  have b: "\<forall>j. 1 \<le> j \<and> j < (1::nat) \<longrightarrow>
       (\<exists>e'. withTimeout (answerOperation questionEnv sampleTranscript (trim (queryText questionEnv)) j)
               SUMMARY_TIMEOUT_MS (js ''User question analysis'') = Inl e' \<and> isRetryable e')"
    by simp
  show ?thesis
    unfolding answerRun_def
    by (rule abort_at[OF order_refl max_attempts_pos b w invalid_key_not_retryable])
qed

lemma generationPhase_plain:
  "generationPhase plainEnv idleState =
     (idleState\<lparr>status := SUCCESS, error := None, result := Some sampleAnalysis, isImproving := True\<rparr>,
      Some (sampleTranscript, sampleAnalysis))"
proof -
  have "generate plainEnv sampleTranscript = outcome (analysisRun plainEnv sampleTranscript)"
    by (simp add: generate_def analysisRun_def trimmed_queries)
  then have "generate plainEnv sampleTranscript = Inr sampleAnalysis"
    by (simp add: analysisRun_samples)
  moreover have "\<not> cancelledAtResult plainEnv" by (simp add: plainEnv_def)
  ultimately show ?thesis
    by (simp add: generationPhase_reached[OF reaches_samples(1)])
qed

lemma plain_validation_fails:
  "validationCallFails (parseValidation plainEnv) (validationReply plainEnv)"
  by (simp add: validationCallFails_def invokeModelForJson_def plainEnv_def)

text \<open>
  Claim C6. For a request that carries a question and reaches the generation, the answer
  call and the analysis call each go through \<open>withTimeoutAndRetry\<close>, and: when both
  succeed the preliminary result is the merge of the two (the answer in
  \<open>customAnswer\<close>, summary and key moments from the analysis), shown unless the
  request was cancelled; when either fails the generation fails, the improvement does
  not start and no result is shown, neither then nor at the end of the run; and a result
  that is shown at that point is always such a merge of two successful calls.
\<close>

theorem question_calls_merged:
  assumes "reachesGeneration env t" and "trim (queryText env) \<noteq> []"
  shows "(outcome (answerRun env t) = Inr ua \<and> outcome (analysisRun env t) = Inr an \<longrightarrow>
            generate env t = Inr (mergedResult ua an) \<and>
            generationPhase env st =
              (if cancelledAtResult env
               then (st\<lparr>status := LOADING, error := None, result := None, isImproving := False\<rparr>, None)
               else (st\<lparr>status := SUCCESS, error := None, result := Some (mergedResult ua an),
                        isImproving := True\<rparr>,
                     Some (t, mergedResult ua an)))) \<and>
         ((\<exists>e. outcome (answerRun env t) = Inl e) \<or> (\<exists>e. outcome (analysisRun env t) = Inl e) \<longrightarrow>
            (\<exists>e. generate env t = Inl e) \<and>
            snd (generationPhase env st) = None \<and>
            result (fst (generationPhase env st)) = None \<and>
            result (handleSummarize env st) = None) \<and>
         (result (fst (generationPhase env st)) = Some r \<longrightarrow>
            (\<exists>ua' an'. outcome (answerRun env t) = Inr ua' \<and> outcome (analysisRun env t) = Inr an' \<and>
                       r = mergedResult ua' an'))"
proof (intro conjI impI)
  assume ok: "outcome (answerRun env t) = Inr ua \<and> outcome (analysisRun env t) = Inr an"
  then show g: "generate env t = Inr (mergedResult ua an)"
    by (simp add: generate_question[OF assms(2)] promiseAll2_def)
  show "generationPhase env st =
              (if cancelledAtResult env
               then (st\<lparr>status := LOADING, error := None, result := None, isImproving := False\<rparr>, None)
               else (st\<lparr>status := SUCCESS, error := None, result := Some (mergedResult ua an),
                        isImproving := True\<rparr>,
                     Some (t, mergedResult ua an)))"
    by (simp add: generationPhase_reached[OF assms(1)] g)
next
  assume f: "(\<exists>e. outcome (answerRun env t) = Inl e) \<or> (\<exists>e. outcome (analysisRun env t) = Inl e)"
  from promiseAll2_fail[OF f, of "answerRejectsFirst env"] obtain e where
    "promiseAll2 (answerRejectsFirst env) (outcome (answerRun env t)) (outcome (analysisRun env t)) = Inl e"
    by blast
  then have g: "generate env t = Inl e" by (simp add: generate_question[OF assms(2)])
  then show "\<exists>e. generate env t = Inl e" by blast
  from g show s: "snd (generationPhase env st) = None"
    by (simp add: generationPhase_reached[OF assms(1)])
  from g show r: "result (fst (generationPhase env st)) = None"
    by (simp add: generationPhase_reached[OF assms(1)])
  from s r show "result (handleSummarize env st) = None"
    by (cases "generationPhase env st") (simp add: handleSummarize_def)
next
  assume v: "result (fst (generationPhase env st)) = Some r"
  show "\<exists>ua' an'. outcome (answerRun env t) = Inr ua' \<and> outcome (analysisRun env t) = Inr an' \<and>
                       r = mergedResult ua' an'"
  proof (cases "promiseAll2 (answerRejectsFirst env) (outcome (answerRun env t)) (outcome (analysisRun env t))")
    case (Inl e)
    then have "generate env t = Inl e" by (simp add: generate_question[OF assms(2)])
    with v show ?thesis by (simp add: generationPhase_reached[OF assms(1)] split: if_splits)
  next
    case (Inr p)
    obtain ua' an' where p: "p = (ua', an')" by (cases p)
    with Inr have o: "outcome (answerRun env t) = Inr ua'" "outcome (analysisRun env t) = Inr an'"
      by (simp_all add: promiseAll2_Inr)
    from Inr p have "generate env t = Inr (mergedResult ua' an')"
      by (simp add: generate_question[OF assms(2)])
    with v have "r = mergedResult ua' an'"
      by (simp add: generationPhase_reached[OF assms(1)] split: if_splits)
    with o show ?thesis by blast
  qed
qed

theorem question_calls_merged_witness:
  "generationPhase answeredEnv idleState =
     (idleState\<lparr>status := SUCCESS, error := None,
                result := Some (mergedResult sampleAnswer sampleAnalysis), isImproving := True\<rparr>,
      Some (sampleTranscript, mergedResult sampleAnswer sampleAnalysis)) \<and>
   outcome (answerRun questionEnv sampleTranscript) = Inl invalidKeyError \<and>
   result (handleSummarize questionEnv idleState) = None"
proof -
  have q: "trim (queryText answeredEnv) \<noteq> []" "trim (queryText questionEnv) \<noteq> []"
    by (simp_all add: trimmed_queries js_simps)
  have c: "\<not> cancelledAtResult answeredEnv"
    by (simp add: answeredEnv_def questionEnv_def plainEnv_def)
  have ok: "outcome (answerRun answeredEnv sampleTranscript) = Inr sampleAnswer \<and>
            outcome (analysisRun answeredEnv sampleTranscript) = Inr sampleAnalysis"
    by (simp add: answerRun_answered analysisRun_samples)
  note t1 = question_calls_merged[OF reaches_samples(3) q(1), of sampleAnswer sampleAnalysis idleState]
  note a0 = t1[THEN conjunct1, THEN mp, OF ok, THEN conjunct2]
  have a: "generationPhase answeredEnv idleState =
     (idleState\<lparr>status := SUCCESS, error := None,
                result := Some (mergedResult sampleAnswer sampleAnalysis), isImproving := True\<rparr>,
      Some (sampleTranscript, mergedResult sampleAnswer sampleAnalysis))"
    using a0 c by (simp only: if_False)
  have f: "(\<exists>e. outcome (answerRun questionEnv sampleTranscript) = Inl e) \<or>
           (\<exists>e. outcome (analysisRun questionEnv sampleTranscript) = Inl e)"
    using answerRun_question by blast
  note t2 = question_calls_merged[OF reaches_samples(2) q(2), of sampleAnswer sampleAnalysis idleState]
  note b = t2[THEN conjunct2, THEN conjunct1, THEN mp, OF f, THEN conjunct2, THEN conjunct2,
              THEN conjunct2]
  from a b answerRun_question[THEN conjunct1] show ?thesis by (intro conjI)
qed

text \<open>
  Claim C5. The validation call fails exactly when the provider rejects, answers with
  an empty text, or answers with a text from which no JSON can be parsed. Then
  \<open>validateResult\<close> resolves with \<open>{isValid: true, issues: []}\<close>; and for every
  preliminary result that the generation phase of \<open>handleSummarize\<close> has shown, the
  result visible when the run ends is that preliminary result, unchanged.
\<close>

theorem validation_fail_open:
  "(validationCallFails parse reply \<longleftrightarrow>
     (case reply of
        Pending \<Rightarrow> False
      | Rejected e \<Rightarrow> True
      | Resolved txt \<Rightarrow>
          trim txt = [] \<or>
          (parse (trim txt) = None \<and>
            (extractJsonFromText (trim txt) = trim txt \<or>
             parse (extractJsonFromText (trim txt)) = None)))) \<and>
   (validationCallFails parse (llm client (ValidationPrompt r t orig lname lcode)) \<longrightarrow>
      snd (validateResult llm parse client r t orig lname lcode) =
        Resolved \<lparr>isValid = True, issues = []\<rparr>) \<and>
   (generationPhase env st = (st', Some (t', init)) \<and>
    validationCallFails (parseValidation env) (validationReply env) \<longrightarrow>
      result st' = Some init \<and> result (handleSummarize env st) = Some init)"
proof (intro conjI impI)
  show "validationCallFails parse reply \<longleftrightarrow>
     (case reply of
        Pending \<Rightarrow> False
      | Rejected e \<Rightarrow> True
      | Resolved txt \<Rightarrow>
          trim txt = [] \<or>
          (parse (trim txt) = None \<and>
            (extractJsonFromText (trim txt) = trim txt \<or>
             parse (extractJsonFromText (trim txt)) = None)))"
    by (rule validationCallFails_cases)
next
  assume "validationCallFails parse (llm client (ValidationPrompt r t orig lname lcode))"
  then show "snd (validateResult llm parse client r t orig lname lcode) =
        Resolved \<lparr>isValid = True, issues = []\<rparr>"
    by (rule validateResult_fail_open)
next
  assume a: "generationPhase env st = (st', Some (t', init)) \<and>
    validationCallFails (parseValidation env) (validationReply env)"
  then have g: "generate env t' = Inr init" "result st' = Some init"
    using generationPhase_Some[of env st st' t' init] by simp_all
  from g(2) show "result st' = Some init" .
  from a g show "result (handleSummarize env st) = Some init"
    by (simp add: handleSummarize_def improve_fail_open)
qed

theorem validation_fail_open_witness:
  "validationCallFails (parseValidation plainEnv) (validationReply plainEnv) \<and>
   result (fst (generationPhase plainEnv idleState)) = Some sampleAnalysis \<and>
   result (handleSummarize plainEnv idleState) = Some sampleAnalysis"
proof -
  note t = validation_fail_open[of "parseValidation plainEnv" "validationReply plainEnv"
      "\<lambda>client p. validationReply plainEnv" sampleClient sampleAnalysis sampleTranscript RespondWithOK
      "js ''English''" "js ''en''" plainEnv idleState
      "idleState\<lparr>status := SUCCESS, error := None, result := Some sampleAnalysis, isImproving := True\<rparr>"
      sampleTranscript sampleAnalysis]
  note h = conjI[OF generationPhase_plain plain_validation_fails]
  note r = t[THEN conjunct2, THEN conjunct2, THEN mp, OF h, THEN conjunct2]
  have g: "result (fst (generationPhase plainEnv idleState)) = Some sampleAnalysis"
    unfolding generationPhase_plain by simp
  from plain_validation_fails g r show ?thesis by (intro conjI)
qed

section \<open>The response parser\<close>

lemma findPat_none:
  "\<forall>c \<in> set s. \<not> p c \<Longrightarrow> findPat (p # ps) s = None"
  by (induction s) auto

lemma findPat_here: "matchesAt pat s \<Longrightarrow> findPat pat s = Some 0"
  by (cases s) auto

lemma findPat_after:
  "\<forall>c \<in> set pre. \<not> p c \<Longrightarrow> matchesAt (p # ps) rest \<Longrightarrow>
   findPat (p # ps) (pre @ rest) = Some (length pre)"
proof (induction pre)
  case Nil
  then show ?case by (simp add: findPat_here)
next
  case (Cons a pre)
  then show ?case by simp
qed

lemma matchesAt_append:
  "matchesAt ps s \<Longrightarrow> length s = length ps \<Longrightarrow> matchesAt qs t \<Longrightarrow> matchesAt (ps @ qs) (s @ t)"
  by (induction ps s rule: matchesAt.induct) auto

lemma matchesAt_fence: "matchesAt fence ([96, 96, 96] @ t)"
  by (simp add: fence_def lit_def)

lemma fence_Cons: "fence = lit 96 # [lit 96, lit 96]"
  by (simp add: fence_def)

lemma fenceJson_Cons: "fenceJson = lit 96 # [lit 96, lit 96, litCI 106, litCI 115, litCI 111, litCI 110]"
  by (simp add: fenceJson_def fence_def)

lemma no_backquote: "96 \<notin> set s \<Longrightarrow> \<forall>c \<in> set s. \<not> lit 96 c"
  by (auto simp: lit_def)

lemma matchFenced_none: "96 \<notin> set raw \<Longrightarrow> matchFenced fenceJson raw = None \<and> matchFenced fence raw = None"
  by (simp add: matchFenced_def findPat_none[OF no_backquote] fence_Cons fenceJson_Cons)

text \<open>the closing fence after a body without backquote\<close>
lemma closing_fence:
  "96 \<notin> set body \<Longrightarrow> findPat fence (body @ [96, 96, 96] @ post) = Some (length body)"
  unfolding fence_Cons
  by (rule findPat_after[OF no_backquote]) (simp_all add: lit_def)

lemma matchFenced_unlabelled:
  assumes "96 \<notin> set pre" "96 \<notin> set body"
  shows "matchFenced fence (pre @ [96, 96, 96] @ body @ [96, 96, 96] @ post) = Some body"
proof -
  have o: "findPat fence (pre @ [96, 96, 96] @ body @ [96, 96, 96] @ post) = Some (length pre)"
    unfolding fence_Cons
    by (rule findPat_after[OF no_backquote[OF assms(1)]]) (simp add: lit_def)
  have d: "drop (length pre + length fence) (pre @ [96, 96, 96] @ body @ [96, 96, 96] @ post)
           = body @ [96, 96, 96] @ post"
    by (simp add: fence_def)
  show ?thesis
    unfolding matchFenced_def o option.case d Let_def closing_fence[OF assms(2)]
    by simp
qed

lemma matchFenced_labelled:
  assumes "96 \<notin> set pre" "96 \<notin> set body" "isJsonLabel label"
  shows "matchFenced fenceJson (pre @ [96, 96, 96] @ label @ body @ [96, 96, 96] @ post) = Some body"
proof -
  from assms(3) obtain a b c d where l: "label = [a, b, c, d]"
    and m: "litCI 106 a" "litCI 115 b" "litCI 111 c" "litCI 110 d"
    unfolding isJsonLabel_def by (auto split: list.splits)
  have o: "findPat fenceJson (pre @ [96, 96, 96] @ label @ body @ [96, 96, 96] @ post) = Some (length pre)"
    unfolding fenceJson_Cons
    by (rule findPat_after[OF no_backquote[OF assms(1)]]) (simp add: lit_def l m)
  have d: "drop (length pre + length fenceJson) (pre @ [96, 96, 96] @ label @ body @ [96, 96, 96] @ post)
           = body @ [96, 96, 96] @ post"
    by (simp add: fenceJson_def fence_def l)
  show ?thesis
    unfolding matchFenced_def o option.case d Let_def closing_fence[OF assms(2)]
    by simp
qed

lemma extract_cases:
  "extractJsonFromText raw =
     (case fencedContents raw of
        Some (c # cs) \<Rightarrow> trim (c # cs)
      | _ \<Rightarrow> (case braceSubstring raw of Some b \<Rightarrow> b | None \<Rightarrow> trim raw))"
  by (simp add: extractJsonFromText_def fencedContents_def braceSubstring_def Let_def
      split: option.splits list.splits)

lemma extract_fenced: "fencedContents raw = Some (c # cs) \<Longrightarrow> extractJsonFromText raw = trim (c # cs)"
  by (simp add: extract_cases)

lemma fencedContents_none: "96 \<notin> set raw \<Longrightarrow> fencedContents raw = None"
  by (simp add: fencedContents_def matchFenced_none)

lemma indexOf_first:
  "c \<notin> set pre \<Longrightarrow> indexOf c (pre @ [c] @ rest) = Some (length pre)"
  unfolding indexOf_def
  by (rule findPat_after) (auto simp: lit_def)

lemma indexOf_none: "c \<notin> set s \<Longrightarrow> indexOf c s = None"
  unfolding indexOf_def by (rule findPat_none) (auto simp: lit_def)

lemma lastIndexOf_last:
  assumes "c \<notin> set post"
  shows "lastIndexOf c (front @ [c] @ post) = Some (length front)"
proof -
  have "findPat [lit c] (rev post @ [c] @ rev front) = Some (length (rev post))"
    by (rule findPat_after) (use assms in \<open>auto simp: lit_def\<close>)
  then show ?thesis by (simp add: lastIndexOf_def)
qed

lemma lastIndexOf_none: "c \<notin> set s \<Longrightarrow> lastIndexOf c s = None"
proof -
  assume "c \<notin> set s"
  then have "findPat [lit c] (rev s) = None"
    by (intro findPat_none) (auto simp: lit_def)
  then show ?thesis by (simp add: lastIndexOf_def)
qed

lemma braceSubstring_between:
  assumes "123 \<notin> set pre" "125 \<notin> set post"
  shows "braceSubstring (pre @ [123] @ mid @ [125] @ post) = Some ([123] @ mid @ [125])"
proof -
  have f: "indexOf 123 (pre @ [123] @ mid @ [125] @ post) = Some (length pre)"
    by (rule indexOf_first[OF assms(1)])
  have "lastIndexOf 125 ((pre @ [123] @ mid) @ [125] @ post) = Some (length (pre @ [123] @ mid))"
    by (rule lastIndexOf_last[OF assms(2)])
  then have l: "lastIndexOf 125 (pre @ [123] @ mid @ [125] @ post) = Some (length pre + 1 + length mid)"
    by simp
  show ?thesis
    unfolding braceSubstring_def f l by (simp add: slice_def)
qed

lemma braceSubstring_none: "123 \<notin> set raw \<or> 125 \<notin> set raw \<Longrightarrow> braceSubstring raw = None"
  by (auto simp: braceSubstring_def indexOf_none lastIndexOf_none split: option.splits)

lemma parse_result_iff:
  "snd (parseJsonContent parse raw context) = Inr v \<longleftrightarrow>
     parse raw = Some v \<or> (parse raw = None \<and> parse (extractJsonFromText raw) = Some v)"
  by (auto simp: parseJsonContent_def Let_def split: option.splits)

lemma parse_failure:
  assumes "snd (parseJsonContent parse raw context) = Inl e"
  shows "e = invalidJson context \<and> fst (parseJsonContent parse raw context) \<noteq> [] \<and>
         last (fst (parseJsonContent parse raw context)) =
           ConsoleError (context @ js '' raw response'') (Some raw)"
  using assms
  by (auto simp: parseJsonContent_def Let_def split: option.splits if_splits)

lemma parse_direct: "parse raw = Some v \<Longrightarrow> parseJsonContent parse raw context = ([], Inr v)"
  by (simp add: parseJsonContent_def)

lemmas json_eval = jsonParse_def skipWs_def isJsonSpace_def startsWith_def setProp_def
  parseNumber_def isDigit_def escapeOf_def digitsValue_def Let_def

lemmas extract_eval = extractJsonFromText_def matchFenced_def fenceJson_def fence_def lit_def
  litCI_def indexOf_def lastIndexOf_def slice_def trim_eval trim_Nil isWhiteSpace_def Let_def

lemma ftb_text: "fencedThenBraces = [96, 96, 96, 120, 96, 96, 96, 32, 123, 125]"
  by (simp add: fencedThenBraces_def js_simps)

lemma ftb_direct: "jsonParse fencedThenBraces = None"
  unfolding ftb_text by (simp add: json_eval)

lemma ftb_fenced: "fencedContents fencedThenBraces = Some [120]"
  unfolding ftb_text by (simp add: fencedContents_def extract_eval)

lemma ftb_braces: "braceSubstring fencedThenBraces = Some [123, 125]"
  unfolding ftb_text by (simp add: braceSubstring_def extract_eval)

lemma ftb_extract: "extractJsonFromText fencedThenBraces = [120]"
  by (simp add: extract_cases ftb_fenced trim_eval isWhiteSpace_def)

lemma parse_x: "jsonParse [120] = None"
  by (simp add: json_eval js_simps)

lemma parse_empty_object: "jsonParse [123, 125] = Some (JObj [])"
  by (simp add: json_eval js_simps)

lemma parse_both_fail:
  "parse raw = None \<Longrightarrow> parse (extractJsonFromText raw) = None \<Longrightarrow>
   snd (parseJsonContent parse raw context) = Inl (invalidJson context)"
  by (simp add: parseJsonContent_def Let_def)

lemma prose_fails:
  "snd (parseJsonContent jsonParse (js ''not json at all'') (js ''ctx'')) = Inl (invalidJson (js ''ctx''))"
  "snd (parseJsonContent jsonParse (js ''neither is this'') (js ''ctx'')) = Inl (invalidJson (js ''ctx''))"
  by (simp_all add: parseJsonContent_def js_simps json_eval extract_eval)

lemma fencedExample_shape:
  "fencedExample = examplePre @ [96, 96, 96] @ js ''json'' @ exampleBody @ [96, 96, 96] @ []"
  by (simp add: fencedExample_def examplePre_def exampleBody_def js_simps)

lemma bracesExample_shape:
  \<open>bracesExample = js ''blah '' @ [123] @ js ''"a":1'' @ [125] @ js '' blah''\<close>
  by (simp add: bracesExample_def js_simps)

lemma example_side:
  "96 \<notin> set examplePre \<and> 96 \<notin> set exampleBody \<and> isJsonLabel (js ''json'')"
  by (simp add: examplePre_def exampleBody_def isJsonLabel_def litCI_def js_simps)

lemma exampleBody_text: \<open>exampleBody = 10 # js ''{"summary":"x","keyMoments":[]}'' @ [10]\<close>
  by (simp add: exampleBody_def)

lemma exampleBody_trim: \<open>trim exampleBody = js ''{"summary":"x","keyMoments":[]}''\<close>
  by (simp add: exampleBody_def js_simps trim_eval isWhiteSpace_def)

lemma exampleBody_parse: \<open>jsonParse (js ''{"summary":"x","keyMoments":[]}'') = Some exampleObject\<close>
  by (simp add: exampleObject_def js_simps json_eval)

lemma fencedExample_direct: "jsonParse fencedExample = None"
  by (simp add: fencedExample_def js_simps json_eval)

lemma bracesExample_direct: "jsonParse bracesExample = None"
  by (simp add: bracesExample_def js_simps json_eval)

lemma bracesExample_side:
  \<open>123 \<notin> set (js ''blah '') \<and> 125 \<notin> set (js '' blah'')\<close> "96 \<notin> set bracesExample"
  by (simp_all add: bracesExample_def js_simps)

lemma bracesExample_parse: \<open>jsonParse ([123] @ js ''"a":1'' @ [125]) = Some (JObj [(js ''a'', JNum 1)])\<close>
  by (simp add: js_simps json_eval)

lemma proseExample_side: "96 \<notin> set proseExample" "123 \<notin> set proseExample \<or> 125 \<notin> set proseExample"
  "jsonParse proseExample = None" "trim proseExample = proseExample"
  by (simp_all add: proseExample_def js_simps json_eval trim_eval isWhiteSpace_def)

text \<open>
  Claim C3, as amended. \<open>parseJsonContent\<close> first attempts the direct parse and returns
  its value when it succeeds. Otherwise it parses one candidate, the text that
  \<open>extractJsonFromText\<close> selects: the trimmed contents of the fenced block (the one
  labelled \<open>json\<close> first) when a block matches and is not empty; otherwise the text
  from the first opening brace to the last closing brace; otherwise the trimmed response.
  It returns a value only when one of these two parses produced it, never a default; and
  when it fails, the error is \<open>Error("<context> returned invalid JSON")\<close>, which does
  not hold the response, and the last line logged holds the response.
\<close>

theorem parser_fallback:
  "(parse raw = Some v \<longrightarrow> parseJsonContent parse raw context = ([], Inr v)) \<and>
   (snd (parseJsonContent parse raw context) = Inr w \<longleftrightarrow>
      parse raw = Some w \<or> (parse raw = None \<and> parse (extractJsonFromText raw) = Some w)) \<and>
   (snd (parseJsonContent parse raw context) = Inl e \<longrightarrow>
      e = invalidJson context \<and> fst (parseJsonContent parse raw context) \<noteq> [] \<and>
      last (fst (parseJsonContent parse raw context)) =
        ConsoleError (context @ js '' raw response'') (Some raw)) \<and>
   extractJsonFromText raw =
     (case fencedContents raw of
        Some (c # cs) \<Rightarrow> trim (c # cs)
      | _ \<Rightarrow> (case braceSubstring raw of Some b \<Rightarrow> b | None \<Rightarrow> trim raw)) \<and>
   (96 \<notin> set pre \<and> 96 \<notin> set body \<and> isJsonLabel label \<longrightarrow>
      fencedContents (pre @ [96, 96, 96] @ label @ body @ [96, 96, 96] @ post) = Some body) \<and>
   (96 \<notin> set pre \<and> 96 \<notin> set body \<and>
    matchFenced fenceJson (pre @ [96, 96, 96] @ body @ [96, 96, 96] @ post) = None \<longrightarrow>
      fencedContents (pre @ [96, 96, 96] @ body @ [96, 96, 96] @ post) = Some body) \<and>
   (96 \<notin> set raw \<longrightarrow> fencedContents raw = None) \<and>
   (123 \<notin> set pre \<and> 125 \<notin> set post \<longrightarrow>
      braceSubstring (pre @ [123] @ mid @ [125] @ post) = Some ([123] @ mid @ [125])) \<and>
   (123 \<notin> set raw \<or> 125 \<notin> set raw \<longrightarrow> braceSubstring raw = None)"
proof (intro conjI impI)
  show "extractJsonFromText raw =
     (case fencedContents raw of
        Some (c # cs) \<Rightarrow> trim (c # cs)
      | _ \<Rightarrow> (case braceSubstring raw of Some b \<Rightarrow> b | None \<Rightarrow> trim raw))"
    by (rule extract_cases)
  show "snd (parseJsonContent parse raw context) = Inr w \<longleftrightarrow>
      parse raw = Some w \<or> (parse raw = None \<and> parse (extractJsonFromText raw) = Some w)"
    by (rule parse_result_iff)
next
  assume "parse raw = Some v"
  then show "parseJsonContent parse raw context = ([], Inr v)" by (rule parse_direct)
next
  assume a: "snd (parseJsonContent parse raw context) = Inl e"
  note f = parse_failure[OF a]
  from f show "e = invalidJson context" by (rule conjunct1)
  from f show "fst (parseJsonContent parse raw context) \<noteq> []" by simp
  from f show "last (fst (parseJsonContent parse raw context)) =
        ConsoleError (context @ js '' raw response'') (Some raw)" by simp
next
  assume a: "96 \<notin> set pre \<and> 96 \<notin> set body \<and> isJsonLabel label"
  have "matchFenced fenceJson (pre @ [96, 96, 96] @ label @ body @ [96, 96, 96] @ post) = Some body"
    by (rule matchFenced_labelled) (use a in blast)+
  then show "fencedContents (pre @ [96, 96, 96] @ label @ body @ [96, 96, 96] @ post) = Some body"
    unfolding fencedContents_def by (simp only: option.case)
next
  assume a: "96 \<notin> set pre \<and> 96 \<notin> set body \<and>
    matchFenced fenceJson (pre @ [96, 96, 96] @ body @ [96, 96, 96] @ post) = None"
  have "matchFenced fence (pre @ [96, 96, 96] @ body @ [96, 96, 96] @ post) = Some body"
    by (rule matchFenced_unlabelled) (use a in blast)+
  with a show "fencedContents (pre @ [96, 96, 96] @ body @ [96, 96, 96] @ post) = Some body"
    unfolding fencedContents_def by (simp only: option.case)
next
  assume "96 \<notin> set raw"
  then show "fencedContents raw = None" by (rule fencedContents_none)
next
  assume a: "123 \<notin> set pre \<and> 125 \<notin> set post"
  show "braceSubstring (pre @ [123] @ mid @ [125] @ post) = Some ([123] @ mid @ [125])"
    by (rule braceSubstring_between) (use a in blast)+
next
  assume "123 \<notin> set raw \<or> 125 \<notin> set raw"
  then show "braceSubstring raw = None" by (rule braceSubstring_none)
qed

theorem parser_fallback_witness:
  "snd (parseJsonContent jsonParse fencedExample (js ''ctx'')) = Inr exampleObject \<and>
   snd (parseJsonContent jsonParse bracesExample (js ''ctx'')) = Inr (JObj [(js ''a'', JNum 1)]) \<and>
   snd (parseJsonContent jsonParse proseExample (js ''ctx'')) = Inl (invalidJson (js ''ctx''))"
proof (intro conjI)
  note t = parser_fallback[of jsonParse fencedExample exampleObject "js ''ctx''" exampleObject
      "invalidJson (js ''ctx'')" examplePre exampleBody "js ''json''" "[]" "[]"]
  note fc = t[THEN conjunct2, THEN conjunct2, THEN conjunct2, THEN conjunct2, THEN conjunct1,
      THEN mp, OF example_side, folded fencedExample_shape]
  note ex = t[THEN conjunct2, THEN conjunct2, THEN conjunct2, THEN conjunct1]
  have "extractJsonFromText fencedExample = trim exampleBody"
    unfolding ex fc by (simp add: exampleBody_text)
  then have "jsonParse (extractJsonFromText fencedExample) = Some exampleObject"
    by (simp only: exampleBody_trim exampleBody_parse)
  with fencedExample_direct
  show "snd (parseJsonContent jsonParse fencedExample (js ''ctx'')) = Inr exampleObject"
    using t[THEN conjunct2, THEN conjunct1] by blast
next
  note t = parser_fallback[of jsonParse bracesExample "JObj [(js ''a'', JNum 1)]" "js ''ctx''"
      "JObj [(js ''a'', JNum 1)]" "invalidJson (js ''ctx'')" "js ''blah ''" "[]" "[]"
      "js '' blah''" \<open>js ''"a":1''\<close>]
  note fc = t[THEN conjunct2, THEN conjunct2, THEN conjunct2, THEN conjunct2, THEN conjunct2,
      THEN conjunct2, THEN conjunct1, THEN mp, OF bracesExample_side(2)]
  note br = t[THEN conjunct2, THEN conjunct2, THEN conjunct2, THEN conjunct2, THEN conjunct2,
      THEN conjunct2, THEN conjunct2, THEN conjunct1, THEN mp, OF bracesExample_side(1),
      folded bracesExample_shape]
  note ex = t[THEN conjunct2, THEN conjunct2, THEN conjunct2, THEN conjunct1]
  have \<open>extractJsonFromText bracesExample = [123] @ js ''"a":1'' @ [125]\<close>
    unfolding ex fc br by simp
  then have "jsonParse (extractJsonFromText bracesExample) = Some (JObj [(js ''a'', JNum 1)])"
    by (simp only: bracesExample_parse)
  with bracesExample_direct
  show "snd (parseJsonContent jsonParse bracesExample (js ''ctx'')) = Inr (JObj [(js ''a'', JNum 1)])"
    using t[THEN conjunct2, THEN conjunct1] by blast
next
  note t = parser_fallback[of jsonParse proseExample exampleObject "js ''ctx''" exampleObject
      "invalidJson (js ''ctx'')" "[]" "[]" "[]" "[]" "[]"]
  note fc = t[THEN conjunct2, THEN conjunct2, THEN conjunct2, THEN conjunct2, THEN conjunct2,
      THEN conjunct2, THEN conjunct1, THEN mp, OF proseExample_side(1)]
  note br = t[THEN conjunct2, THEN conjunct2, THEN conjunct2, THEN conjunct2, THEN conjunct2,
      THEN conjunct2, THEN conjunct2, THEN conjunct2, THEN mp, OF proseExample_side(2)]
  note ex = t[THEN conjunct2, THEN conjunct2, THEN conjunct2, THEN conjunct1]
  have "extractJsonFromText proseExample = proseExample"
    unfolding ex fc br by (simp add: proseExample_side(4))
  then have "jsonParse (extractJsonFromText proseExample) = None"
    by (simp only: proseExample_side(3))
  then show "snd (parseJsonContent jsonParse proseExample (js ''ctx'')) = Inl (invalidJson (js ''ctx''))"
    by (rule parse_both_fail[of jsonParse proseExample, OF proseExample_side(3)])
qed

text \<open>
  Claim C3, as stated, fails. On a response with a fenced block that is not JSON followed
  by an object in braces, the layered parser of the specification returns the object,
  and \<open>parseJsonContent\<close> raises the error without trying the braces; and two
  different responses that cannot be parsed raise the same error, which therefore does
  not carry the response.
\<close>

theorem layered_fallback_counterexample:
  "layeredParse jsonParse fencedThenBraces = Some (JObj []) \<and>
   snd (parseJsonContent jsonParse fencedThenBraces (js ''ctx'')) = Inl (invalidJson (js ''ctx'')) \<and>
   snd (parseJsonContent jsonParse (js ''not json at all'') (js ''ctx'')) =
     snd (parseJsonContent jsonParse (js ''neither is this'') (js ''ctx''))"
proof (intro conjI)
  show "layeredParse jsonParse fencedThenBraces = Some (JObj [])"
    by (simp add: layeredParse_def ftb_direct ftb_fenced ftb_braces parse_x parse_empty_object
        trim_eval isWhiteSpace_def)
  show "snd (parseJsonContent jsonParse fencedThenBraces (js ''ctx'')) = Inl (invalidJson (js ''ctx''))"
    by (rule parse_both_fail[of jsonParse fencedThenBraces, OF ftb_direct])
       (simp only: ftb_extract parse_x)
  show "snd (parseJsonContent jsonParse (js ''not json at all'') (js ''ctx'')) =
     snd (parseJsonContent jsonParse (js ''neither is this'') (js ''ctx''))"
    by (simp only: prose_fails)
qed

section \<open>The result cache\<close>

lemma openDatabase_unavailable:
  "unavailable db e \<Longrightarrow> openDatabase db = ([ConsoleError (js ''Failed to open IndexedDB:'') None], Inl e)"
  by (simp add: openDatabase_def unavailable_def)

lemma reads_degrade:
  assumes "unavailable db e"
  shows "getSummary db vid = (accessFailureLog, Resolved None, db)"
    and "getAllSummaries db = (accessFailureLog, Resolved [], db)"
  by (simp_all add: getSummary_def getAllSummaries_def openDatabase_unavailable[OF assms]
      accessFailureLog_def)

lemma save_rejects_unavailable:
  assumes "unavailable db e"
  shows "saveSummary db now vid res url lang query =
           ([ConsoleError (js ''Failed to open IndexedDB:'') None], Rejected e, db)"
  by (simp add: saveSummary_def openDatabase_unavailable[OF assms])

lemma save_rejects_put:
  assumes "dbInstance db" "transactionError db = None" "readError db = None" "putError db = Some e"
  shows "saveSummary db now vid res url lang query =
           ([ConsoleError (js ''Failed to save summary:'') None,
             ConsoleError (js ''Transaction failed:'') None], Rejected e, db)"
  using assms by (simp add: saveSummary_def openDatabase_def Let_def)

lemma persist_keeps:
  "result (persist env res st) = result st \<and> status (persist env res st) = status st \<and>
   error (persist env res st) = error st \<and> isImproving (persist env res st) = isImproving st"
  by (simp add: persist_def split: option.splits prod.splits promise.splits)

lemma persist_warns:
  assumes "currentVideo env = Some (vid, url)" "unavailable (cache st) e"
  shows "console (persist env res st) =
           console st @ [ConsoleError (js ''Failed to open IndexedDB:'') None,
                         ConsoleWarn (js ''Failed to save summary to cache:'')]"
  using assms by (simp add: persist_def save_rejects_unavailable)

lemma improve_cache_independent:
  "result (improve env t init (st\<lparr>cache := db\<rparr>)) = result (improve env t init st) \<and>
   status (improve env t init (st\<lparr>cache := db\<rparr>)) = status (improve env t init st)"
  by (simp add: improve_def persist_keeps split: promise.splits)

lemma generationPhase_cache:
  "generationPhase env (st\<lparr>cache := db\<rparr>) =
     ((fst (generationPhase env st))\<lparr>cache := db\<rparr>, snd (generationPhase env st))"
  by (simp add: generationPhase_def Let_def split: sum.splits)

lemma handleSummarize_cache_independent:
  "result (handleSummarize env (st\<lparr>cache := db\<rparr>)) = result (handleSummarize env st) \<and>
   status (handleSummarize env (st\<lparr>cache := db\<rparr>)) = status (handleSummarize env st)"
proof (cases "generationPhase env st")
  case (Pair st' cont)
  show ?thesis
  proof (cases cont)
    case None
    with Pair show ?thesis by (simp add: handleSummarize_def generationPhase_cache)
  next
    case (Some p)
    obtain t init where "p = (t, init)" by (cases p)
    with Pair Some show ?thesis
      by (simp add: handleSummarize_def generationPhase_cache improve_cache_independent)
  qed
qed

lemma unavailable_sample: "unavailable unavailableStorage storageError"
  by (simp add: unavailable_def unavailableStorage_def emptyStorage_def)

text \<open>
  When the database is open and the read request itself fails, the promise that
  \<open>getSummary\<close> and \<open>getAllSummaries\<close> return is rejected: it is returned, not
  awaited, inside the \<open>try\<close>.
\<close>

lemma read_request_failure_escapes:
  assumes "dbInstance db" "transactionError db = None" "readError db = Some e"
  shows "fst (snd (getSummary db vid)) = Rejected e \<and> fst (snd (getAllSummaries db)) = Rejected e"
  using assms by (simp add: getSummary_def getAllSummaries_def openDatabase_def)

text \<open>
  Claim C7, as amended. When the storage cannot be opened, \<open>getSummary\<close> resolves with
  \<open>null\<close> and \<open>getAllSummaries\<close> with the empty list, after logging. \<open>saveSummary\<close>
  does not absorb a failure: it logs it and rejects, when the storage cannot be opened
  as when the write request fails. Its callers in \<open>handleSummarize\<close> catch the
  rejection and log a warning; what they show (result and status) does not depend on
  the storage at all.
\<close>

theorem cache_failures:
  "(unavailable db e \<longrightarrow>
      getSummary db vid = (accessFailureLog, Resolved None, db) \<and>
      getAllSummaries db = (accessFailureLog, Resolved [], db) \<and>
      saveSummary db now vid res url lang query =
        ([ConsoleError (js ''Failed to open IndexedDB:'') None], Rejected e, db)) \<and>
   (dbInstance db \<and> transactionError db = None \<and> readError db = None \<and> putError db = Some e \<longrightarrow>
      saveSummary db now vid res url lang query =
        ([ConsoleError (js ''Failed to save summary:'') None,
          ConsoleError (js ''Transaction failed:'') None], Rejected e, db)) \<and>
   (currentVideo env = Some (vid, url) \<and> unavailable (cache st) e \<longrightarrow>
      console (persist env res st) =
        console st @ [ConsoleError (js ''Failed to open IndexedDB:'') None,
                      ConsoleWarn (js ''Failed to save summary to cache:'')]) \<and>
   result (persist env res st) = result st \<and> status (persist env res st) = status st \<and>
   result (handleSummarize env (st\<lparr>cache := db\<rparr>)) = result (handleSummarize env st) \<and>
   status (handleSummarize env (st\<lparr>cache := db\<rparr>)) = status (handleSummarize env st)"
proof (intro conjI impI)
  assume u: "unavailable db e"
  show "getSummary db vid = (accessFailureLog, Resolved None, db)" by (rule reads_degrade(1)[OF u])
  show "getAllSummaries db = (accessFailureLog, Resolved [], db)" by (rule reads_degrade(2)[OF u])
  show "saveSummary db now vid res url lang query =
        ([ConsoleError (js ''Failed to open IndexedDB:'') None], Rejected e, db)"
    by (rule save_rejects_unavailable[OF u])
next
  assume a: "dbInstance db \<and> transactionError db = None \<and> readError db = None \<and> putError db = Some e"
  show "saveSummary db now vid res url lang query =
        ([ConsoleError (js ''Failed to save summary:'') None,
          ConsoleError (js ''Transaction failed:'') None], Rejected e, db)"
    by (rule save_rejects_put) (use a in blast)+
next
  assume a: "currentVideo env = Some (vid, url) \<and> unavailable (cache st) e"
  show "console (persist env res st) =
        console st @ [ConsoleError (js ''Failed to open IndexedDB:'') None,
                      ConsoleWarn (js ''Failed to save summary to cache:'')]"
    by (rule persist_warns) (use a in blast)+
next
  show "result (persist env res st) = result st" using persist_keeps by blast
  show "status (persist env res st) = status st" using persist_keeps by blast
  show "result (handleSummarize env (st\<lparr>cache := db\<rparr>)) = result (handleSummarize env st)"
    using handleSummarize_cache_independent by blast
  show "status (handleSummarize env (st\<lparr>cache := db\<rparr>)) = status (handleSummarize env st)"
    using handleSummarize_cache_independent by blast
qed

theorem cache_failures_witness:
  "unavailable unavailableStorage storageError \<and>
   getSummary unavailableStorage (js ''abc'') = (accessFailureLog, Resolved None, unavailableStorage) \<and>
   getAllSummaries unavailableStorage = (accessFailureLog, Resolved [], unavailableStorage)"
proof -
  note t = cache_failures[of unavailableStorage storageError "js ''abc''" 1000 sampleAnalysis
      "js ''url''" "js ''en''" "[]" plainEnv idleState]
  note r = t[THEN conjunct1, THEN mp, OF unavailable_sample]
  from unavailable_sample r[THEN conjunct1] r[THEN conjunct2, THEN conjunct1]
  show ?thesis by (intro conjI)
qed

text \<open>
  Claim C7, as stated, fails for the write: on storage that cannot be opened,
  \<open>saveSummary\<close> rejects with the error of the storage.
\<close>

theorem write_failure_counterexample:
  "unavailable unavailableStorage storageError \<and>
   fst (snd (saveSummary unavailableStorage 1000 (js ''abc'') sampleAnalysis (js ''url'') (js ''en'') []))
     = Rejected storageError"
  by (simp add: unavailable_sample save_rejects_unavailable[OF unavailable_sample])

end
